theory Spec2Isabelle
  imports Main "HOL-Library.Word" "HOL-Library.Sublist"
begin

section \<open>Values of the Terraform plugin framework\<close>

text \<open>
  A framework attribute value (\<^verbatim>\<open>types.String\<close>, \<^verbatim>\<open>types.Bool\<close>, \<^verbatim>\<open>types.Int64\<close>)
  is null, unknown or known.  \<^verbatim>\<open>ValueString()\<close> and \<^verbatim>\<open>ValueInt64()\<close> give the zero
  value of the Go type when the attribute is null or unknown.
\<close>

datatype tfString = StringNull | StringUnknown | StringValue string

datatype tfBool = BoolNull | BoolUnknown | BoolValue bool

datatype tfInt64 = Int64Null | Int64Unknown | Int64Value "64 word"

fun String_IsNull :: "tfString \<Rightarrow> bool" where
  "String_IsNull StringNull = True"
| "String_IsNull StringUnknown = False"
| "String_IsNull (StringValue s) = False"

fun String_IsUnknown :: "tfString \<Rightarrow> bool" where
  "String_IsUnknown StringNull = False"
| "String_IsUnknown StringUnknown = True"
| "String_IsUnknown (StringValue s) = False"

fun ValueString :: "tfString \<Rightarrow> string" where
  "ValueString StringNull = []"
| "ValueString StringUnknown = []"
| "ValueString (StringValue s) = s"

fun Int64_IsNull :: "tfInt64 \<Rightarrow> bool" where
  "Int64_IsNull Int64Null = True"
| "Int64_IsNull Int64Unknown = False"
| "Int64_IsNull (Int64Value n) = False"

fun ValueInt64 :: "tfInt64 \<Rightarrow> 64 word" where
  "ValueInt64 Int64Null = 0"
| "ValueInt64 Int64Unknown = 0"
| "ValueInt64 (Int64Value n) = n"

text \<open>
  Diagnostics: this provider only ever adds errors (\<^verbatim>\<open>AddError\<close>,
  \<^verbatim>\<open>AddAttributeError\<close>); the framework's own decoding may add warnings as well.
\<close>

datatype diagnostic =
    ErrorDiagnostic string string
  | AttributeErrorDiagnostic string string string
  | WarningDiagnostic string string

fun is_error :: "diagnostic \<Rightarrow> bool" where
  "is_error (ErrorDiagnostic summary detail) = True"
| "is_error (AttributeErrorDiagnostic attr summary detail) = True"
| "is_error (WarningDiagnostic summary detail) = False"

fun HasError :: "diagnostic list \<Rightarrow> bool" where
  "HasError [] = False"
| "HasError (d # ds) = (is_error d \<or> HasError ds)"

text \<open>
  \<^verbatim>\<open>req.Config\<close>, \<^verbatim>\<open>req.Plan\<close> and \<^verbatim>\<open>req.State\<close>: what \<^verbatim>\<open>Get(ctx, &data)\<close> yields,
  namely the diagnostics of the decoding and the decoded model.
\<close>

record 'a tfdata =
  Get_Diagnostics :: "diagnostic list"
  Get_Value :: 'a

section \<open>The client package: types\<close>

text \<open>A \<^verbatim>\<open>time.Time\<close> is a point on the time line, here in Unix nanoseconds.\<close>

type_synonym time = int

text \<open>
  Modelled from the spec: the Go declarations of \<^verbatim>\<open>UserResponse\<close> (the envelope that
  \<^verbatim>\<open>GetUser\<close> and \<^verbatim>\<open>CreateUser\<close> decode, read through \<^verbatim>\<open>resp.Data\<close>) and of the field
  \<^verbatim>\<open>GlobalRole\<close> of \<^verbatim>\<open>User\<close> (a pointer to a struct with a \<^verbatim>\<open>Name\<close>, read by the data
  source) are in no source file; they are declared here as their uses require.
\<close>

record GlobalRoleT =
  Name :: string

record User =
  ID :: string
  Email :: string
  FirstName :: "string option"
  LastName :: "string option"
  IsPending :: bool
  CreatedAt :: time
  UpdatedAt :: time
  Role :: string
  InviteAcceptUrl :: string
  GlobalRole :: "GlobalRoleT option"

record UserResponse =
  Data :: User

record CreateUserRequest =
  req_Email :: string
  req_Role :: string
  req_FirstName :: string
  req_LastName :: string

record UpdateUserRoleRequest =
  NewRoleName :: string

record ErrorResponse =
  Code :: string
  Message :: string
  Hint :: string

text \<open>The \<^verbatim>\<open>body interface{}\<close> of \<^verbatim>\<open>doRequest\<close>: nil, or one of the two request structs.\<close>

datatype body = CreateUserBody CreateUserRequest | UpdateUserRoleBody UpdateUserRoleRequest

section \<open>The client package: transport\<close>

record http_Client =
  Client_Timeout :: "64 word"

record Client =
  baseURL :: string
  apiKey :: string
  httpClient :: http_Client

record Config =
  BaseURL :: string
  APIKey :: string
  Timeout :: "64 word"

text \<open>\<^verbatim>\<open>time.Second\<close> and \<^verbatim>\<open>defaultTimeout = 30 * time.Second\<close>, in nanoseconds (int64).\<close>

definition time_Second :: "64 word" where
  "time_Second = 1000000000"

definition defaultTimeout :: "64 word" where
  "defaultTimeout = 30 * time_Second"

definition userAgent :: string where
  "userAgent = ''terraform-provider-n8ncloud''"

definition NewClient :: "Config \<Rightarrow> string + Client" where
  "NewClient config =
     (if BaseURL config = [] then Inl ''base URL is required''
      else if APIKey config = [] then Inl ''API key is required''
      else
        let timeout = (if Timeout config = 0 then defaultTimeout else Timeout config)
        in Inr \<lparr>baseURL = BaseURL config, apiKey = APIKey config,
                 httpClient = \<lparr>Client_Timeout = timeout\<rparr>\<rparr>)"

text \<open>
  The Go libraries the client calls.  Each is a function of the model's input, so every
  theorem below holds for whatever these libraries compute; a Go \<^verbatim>\<open>error\<close> is its
  message.
\<close>

record lib =
  json_Marshal :: "body \<Rightarrow> string + string"
  json_Unmarshal_ErrorResponse :: "string \<Rightarrow> string + ErrorResponse"
  json_Unmarshal_UserResponse :: "string \<Rightarrow> string + UserResponse"
  http_NewRequestWithContext :: "string \<Rightarrow> string \<Rightarrow> string option"
  Format_RFC3339 :: "time \<Rightarrow> string"

record Request =
  Method :: string
  URL :: string
  Header :: "(string \<times> string) list"
  Body :: "string option"

text \<open>
  What \<^verbatim>\<open>httpClient.Do\<close> followed by \<^verbatim>\<open>io.ReadAll\<close> ends in: \<^verbatim>\<open>Do\<close> fails (no
  connection, timeout, cancelled context), reading the body fails, or a status code and
  a body arrive.
\<close>

datatype RoundTrip = DoError string | ReadError string | Response int string

text \<open>
  The network: how the remote side answers a request after the requests sent so far,
  and the requests sent so far.  Every call of \<^verbatim>\<open>httpClient.Do\<close> appends to \<open>calls\<close>.
\<close>

record world =
  respond :: "Request list \<Rightarrow> http_Client \<Rightarrow> Request \<Rightarrow> RoundTrip"
  calls :: "Request list"

text \<open>The verb \<^verbatim>\<open>%d\<close> of \<^verbatim>\<open>fmt\<close>.\<close>

fun show_nat :: "nat \<Rightarrow> string" where
  "show_nat n =
     (if n < 10 then [''0123456789'' ! n]
      else show_nat (n div 10) @ [''0123456789'' ! (n mod 10)])"

declare show_nat.simps [simp del]

definition show_int :: "int \<Rightarrow> string" where
  "show_int i = (if i < 0 then ''-'' @ show_nat (nat (- i)) else show_nat (nat i))"

definition doRequest ::
  "lib \<Rightarrow> Client \<Rightarrow> world \<Rightarrow> string \<Rightarrow> string \<Rightarrow> body option \<Rightarrow> (string + string) \<times> world" where
  "doRequest L c w method path body =
     (let url = baseURL c @ ''/api/v1'' @ path in
      case (case body of
              None \<Rightarrow> Inr None
            | Some b \<Rightarrow>
                (case json_Marshal L b of
                   Inl err \<Rightarrow> Inl err
                 | Inr jsonBody \<Rightarrow> Inr (Some jsonBody))) of
        Inl err \<Rightarrow> (Inl (''failed to marshal request body: '' @ err), w)
      | Inr reqBody \<Rightarrow>
          (case http_NewRequestWithContext L method url of
             Some err \<Rightarrow> (Inl (''failed to create request: '' @ err), w)
           | None \<Rightarrow>
               (let req = \<lparr>Method = method, URL = url,
                           Header = [(''X-N8N-API-KEY'', apiKey c),
                                     (''Content-Type'', ''application/json''),
                                     (''Accept'', ''application/json''),
                                     (''User-Agent'', userAgent)],
                           Body = reqBody\<rparr>;
                    w' = w\<lparr>calls := calls w @ [req]\<rparr>
                in case respond w (calls w) (httpClient c) req of
                     DoError err \<Rightarrow> (Inl (''failed to perform request: '' @ err), w')
                   | ReadError err \<Rightarrow> (Inl (''failed to read response body: '' @ err), w')
                   | Response StatusCode respBody \<Rightarrow>
                       if StatusCode \<ge> 400 then
                         (case json_Unmarshal_ErrorResponse L respBody of
                            Inl err \<Rightarrow>
                              (Inl (''HTTP '' @ show_int StatusCode @ '': '' @ respBody), w')
                          | Inr errResp \<Rightarrow>
                              (Inl (''API error: '' @ Code errResp @ '' - '' @ Message errResp), w'))
                       else (Inr respBody, w'))))"

section \<open>The client package: users\<close>

definition GetUser :: "lib \<Rightarrow> Client \<Rightarrow> world \<Rightarrow> string \<Rightarrow> (string + User) \<times> world" where
  "GetUser L c w id' =
     (case doRequest L c w ''GET'' (''/users/'' @ id') None of
        (Inl err, w') \<Rightarrow> (Inl err, w')
      | (Inr body, w') \<Rightarrow>
          (case json_Unmarshal_UserResponse L body of
             Inl err \<Rightarrow> (Inl (''failed to unmarshal user response: '' @ err), w')
           | Inr resp \<Rightarrow> (Inr (Data resp), w')))"

definition GetUserByEmail :: "lib \<Rightarrow> Client \<Rightarrow> world \<Rightarrow> string \<Rightarrow> (string + User) \<times> world" where
  "GetUserByEmail L c w email = GetUser L c w email"

definition CreateUser ::
  "lib \<Rightarrow> Client \<Rightarrow> world \<Rightarrow> CreateUserRequest \<Rightarrow> (string + User) \<times> world" where
  "CreateUser L c w req =
     (case doRequest L c w ''POST'' ''/users'' (Some (CreateUserBody req)) of
        (Inl err, w') \<Rightarrow> (Inl err, w')
      | (Inr body, w') \<Rightarrow>
          (case json_Unmarshal_UserResponse L body of
             Inl err \<Rightarrow> (Inl (''failed to unmarshal create user response: '' @ err), w')
           | Inr resp \<Rightarrow> (Inr (Data resp), w')))"

definition UpdateUserRole ::
  "lib \<Rightarrow> Client \<Rightarrow> world \<Rightarrow> string \<Rightarrow> string \<Rightarrow> string option \<times> world" where
  "UpdateUserRole L c w id' newRole =
     (let path = ''/users/'' @ id' @ ''/role'';
          req = \<lparr>NewRoleName = newRole\<rparr>
      in case doRequest L c w ''PATCH'' path (Some (UpdateUserRoleBody req)) of
           (Inl err, w') \<Rightarrow> (Some err, w')
         | (Inr body, w') \<Rightarrow> (None, w'))"

definition DeleteUser :: "lib \<Rightarrow> Client \<Rightarrow> world \<Rightarrow> string \<Rightarrow> string option \<times> world" where
  "DeleteUser L c w id' =
     (case doRequest L c w ''DELETE'' (''/users/'' @ id') None of
        (Inl err, w') \<Rightarrow> (Some err, w')
      | (Inr body, w') \<Rightarrow> (None, w'))"

section \<open>The provider package: models\<close>

text \<open>
  \<^verbatim>\<open>UserResourceModel\<close> and \<^verbatim>\<open>UserDataSourceModel\<close> are two Go structs with the same
  nine fields, in the same order and of the same types.
\<close>

record UserModel =
  m_ID :: tfString
  m_Email :: tfString
  m_Role :: tfString
  m_FirstName :: tfString
  m_LastName :: tfString
  m_IsPending :: tfBool
  m_CreatedAt :: tfString
  m_UpdatedAt :: tfString
  m_InviteAcceptURL :: tfString

type_synonym UserResourceModel = UserModel

type_synonym UserDataSourceModel = UserModel

text \<open>
  The response a lifecycle method fills: the diagnostics and the state (\<open>None\<close> is the
  null state).  The framework hands \<^verbatim>\<open>Create\<close> and the data source's \<^verbatim>\<open>Read\<close> a null
  state, and \<^verbatim>\<open>Read\<close>, \<^verbatim>\<open>Update\<close> and \<^verbatim>\<open>Delete\<close> of the resource a copy of the prior
  state.  \<^verbatim>\<open>State.Set(ctx, &data)\<close> stores a model of the schema's shape and reports
  nothing.
\<close>

record Response =
  Diagnostics :: "diagnostic list"
  State :: "UserModel option"

definition Diagnostics_Append :: "diagnostic list \<Rightarrow> Response \<Rightarrow> Response" where
  "Diagnostics_Append ds resp = resp\<lparr>Diagnostics := Diagnostics resp @ ds\<rparr>"

definition AddError :: "string \<Rightarrow> string \<Rightarrow> Response \<Rightarrow> Response" where
  "AddError summary detail resp = Diagnostics_Append [ErrorDiagnostic summary detail] resp"

definition State_Set :: "UserModel \<Rightarrow> Response \<Rightarrow> Response" where
  "State_Set data resp = resp\<lparr>State := Some data\<rparr>"

text \<open>
  \<^verbatim>\<open>State.SetAttribute(ctx, path.Root(name), value)\<close> with a Go string as value: it
  writes the one string attribute of that name (into an object of nulls when the state is
  null) and leaves every other attribute as it is; a name that is no string attribute of
  the schema is reported and nothing is written.
\<close>

definition null_UserModel :: UserModel where
  "null_UserModel =
     \<lparr>m_ID = StringNull, m_Email = StringNull, m_Role = StringNull,
      m_FirstName = StringNull, m_LastName = StringNull, m_IsPending = BoolNull,
      m_CreatedAt = StringNull, m_UpdatedAt = StringNull, m_InviteAcceptURL = StringNull\<rparr>"

datatype path = Root string

fun State_SetAttribute :: "path \<Rightarrow> string \<Rightarrow> Response \<Rightarrow> Response" where
  "State_SetAttribute (Root name) v resp =
     (let m = (case State resp of None \<Rightarrow> null_UserModel | Some m \<Rightarrow> m) in
      if name = ''id'' then resp\<lparr>State := Some (m\<lparr>m_ID := StringValue v\<rparr>)\<rparr>
      else if name = ''email'' then resp\<lparr>State := Some (m\<lparr>m_Email := StringValue v\<rparr>)\<rparr>
      else if name = ''role'' then resp\<lparr>State := Some (m\<lparr>m_Role := StringValue v\<rparr>)\<rparr>
      else if name = ''first_name'' then resp\<lparr>State := Some (m\<lparr>m_FirstName := StringValue v\<rparr>)\<rparr>
      else if name = ''last_name'' then resp\<lparr>State := Some (m\<lparr>m_LastName := StringValue v\<rparr>)\<rparr>
      else if name = ''created_at'' then resp\<lparr>State := Some (m\<lparr>m_CreatedAt := StringValue v\<rparr>)\<rparr>
      else if name = ''updated_at'' then resp\<lparr>State := Some (m\<lparr>m_UpdatedAt := StringValue v\<rparr>)\<rparr>
      else if name = ''invite_accept_url'' then
        resp\<lparr>State := Some (m\<lparr>m_InviteAcceptURL := StringValue v\<rparr>)\<rparr>
      else Diagnostics_Append [AttributeErrorDiagnostic name ''State Write Error'' v] resp)"

section \<open>The provider package: the data source\<close>

text \<open>
  Every lifecycle method below runs on a receiver whose \<open>client\<close> was stored by
  \<^verbatim>\<open>Configure\<close>; the logging calls (\<^verbatim>\<open>tflog\<close>) are left out.
\<close>

definition UserDataSource_Read ::
  "lib \<Rightarrow> Client \<Rightarrow> world \<Rightarrow> UserDataSourceModel tfdata \<Rightarrow> Response \<Rightarrow> Response \<times> world" where
  "UserDataSource_Read L c w config resp =
     (let data = Get_Value config;
          resp = Diagnostics_Append (Get_Diagnostics config) resp
      in if HasError (Diagnostics resp) then (resp, w)
         else if String_IsNull (m_ID data) \<and> String_IsNull (m_Email data) then
           (AddError ''Missing Attribute'' ''Either 'id' or 'email' must be specified'' resp, w)
         else
           (case (if \<not> String_IsNull (m_ID data)
                  then GetUser L c w (ValueString (m_ID data))
                  else GetUserByEmail L c w (ValueString (m_Email data))) of
              (Inl err, w') \<Rightarrow>
                (AddError ''Client Error'' (''Unable to read user, got error: '' @ err) resp, w')
            | (Inr user, w') \<Rightarrow>
                (let data = data\<lparr>m_ID := StringValue (ID user)\<rparr>;
                     data = data\<lparr>m_Email := StringValue (Email user)\<rparr>;
                     data = data\<lparr>m_IsPending := BoolValue (IsPending user)\<rparr>;
                     data = data\<lparr>m_CreatedAt := StringValue (Format_RFC3339 L (CreatedAt user))\<rparr>;
                     data = data\<lparr>m_UpdatedAt := StringValue (Format_RFC3339 L (UpdatedAt user))\<rparr>;
                     data = data\<lparr>m_Role :=
                              (case GlobalRole user of
                                 Some r \<Rightarrow> StringValue (Name r)
                               | None \<Rightarrow> StringNull)\<rparr>;
                     data = data\<lparr>m_FirstName :=
                              (case FirstName user of
                                 Some s \<Rightarrow> StringValue s
                               | None \<Rightarrow> StringNull)\<rparr>;
                     data = data\<lparr>m_LastName :=
                              (case LastName user of
                                 Some s \<Rightarrow> StringValue s
                               | None \<Rightarrow> StringNull)\<rparr>;
                     data = data\<lparr>m_InviteAcceptURL :=
                              (if InviteAcceptUrl user \<noteq> []
                               then StringValue (InviteAcceptUrl user)
                               else StringNull)\<rparr>
                 in (State_Set data resp, w'))))"

section \<open>The provider package: the resource\<close>

definition UserResource_Create ::
  "lib \<Rightarrow> Client \<Rightarrow> world \<Rightarrow> UserResourceModel tfdata \<Rightarrow> Response \<Rightarrow> Response \<times> world" where
  "UserResource_Create L c w plan resp =
     (let data = Get_Value plan;
          resp = Diagnostics_Append (Get_Diagnostics plan) resp
      in if HasError (Diagnostics resp) then (resp, w)
         else
           (let createReq = \<lparr>req_Email = ValueString (m_Email data),
                             req_Role = ValueString (m_Role data),
                             req_FirstName = [], req_LastName = []\<rparr>
            in case CreateUser L c w createReq of
                 (Inl err, w') \<Rightarrow>
                   (AddError ''Client Error'' (''Unable to create user, got error: '' @ err) resp, w')
               | (Inr user, w') \<Rightarrow>
                   (let data = data\<lparr>m_ID := StringValue (ID user)\<rparr>;
                        data = data\<lparr>m_IsPending := BoolValue (IsPending user)\<rparr>;
                        data = data\<lparr>m_CreatedAt := StringValue (Format_RFC3339 L (CreatedAt user))\<rparr>;
                        data = data\<lparr>m_UpdatedAt := StringValue (Format_RFC3339 L (UpdatedAt user))\<rparr>;
                        data = (if Role user \<noteq> []
                                then data\<lparr>m_Role := StringValue (Role user)\<rparr>
                                else data);
                        data = data\<lparr>m_FirstName :=
                                 (case FirstName user of
                                    Some s \<Rightarrow> StringValue s
                                  | None \<Rightarrow> StringNull)\<rparr>;
                        data = data\<lparr>m_LastName :=
                                 (case LastName user of
                                    Some s \<Rightarrow> StringValue s
                                  | None \<Rightarrow> StringNull)\<rparr>;
                        data = data\<lparr>m_InviteAcceptURL :=
                                 (if InviteAcceptUrl user \<noteq> []
                                  then StringValue (InviteAcceptUrl user)
                                  else StringNull)\<rparr>
                    in (State_Set data resp, w'))))"

definition UserResource_Read ::
  "lib \<Rightarrow> Client \<Rightarrow> world \<Rightarrow> UserResourceModel tfdata \<Rightarrow> Response \<Rightarrow> Response \<times> world" where
  "UserResource_Read L c w state resp =
     (let data = Get_Value state;
          resp = Diagnostics_Append (Get_Diagnostics state) resp
      in if HasError (Diagnostics resp) then (resp, w)
         else
           (case GetUser L c w (ValueString (m_ID data)) of
              (Inl err, w') \<Rightarrow>
                (AddError ''Client Error'' (''Unable to read user, got error: '' @ err) resp, w')
            | (Inr user, w') \<Rightarrow>
                (let data = data\<lparr>m_Email := StringValue (Email user)\<rparr>;
                     data = data\<lparr>m_IsPending := BoolValue (IsPending user)\<rparr>;
                     data = data\<lparr>m_CreatedAt := StringValue (Format_RFC3339 L (CreatedAt user))\<rparr>;
                     data = data\<lparr>m_UpdatedAt := StringValue (Format_RFC3339 L (UpdatedAt user))\<rparr>;
                     data = (if Role user \<noteq> []
                             then data\<lparr>m_Role := StringValue (Role user)\<rparr>
                             else data);
                     data = data\<lparr>m_FirstName :=
                              (case FirstName user of
                                 Some s \<Rightarrow> StringValue s
                               | None \<Rightarrow> StringNull)\<rparr>;
                     data = data\<lparr>m_LastName :=
                              (case LastName user of
                                 Some s \<Rightarrow> StringValue s
                               | None \<Rightarrow> StringNull)\<rparr>;
                     data = data\<lparr>m_InviteAcceptURL :=
                              (if InviteAcceptUrl user \<noteq> []
                               then StringValue (InviteAcceptUrl user)
                               else StringNull)\<rparr>
                 in (State_Set data resp, w'))))"

definition UserResource_Update ::
  "lib \<Rightarrow> Client \<Rightarrow> world \<Rightarrow> UserResourceModel tfdata \<Rightarrow> Response \<Rightarrow> Response \<times> world" where
  "UserResource_Update L c w plan resp =
     (let data = Get_Value plan;
          resp = Diagnostics_Append (Get_Diagnostics plan) resp
      in if HasError (Diagnostics resp) then (resp, w)
         else
           (case UpdateUserRole L c w (ValueString (m_ID data)) (ValueString (m_Role data)) of
              (Some err, w') \<Rightarrow>
                (AddError ''Client Error''
                   (''Unable to update user role, got error: '' @ err) resp, w')
            | (None, w') \<Rightarrow>
                (case GetUser L c w' (ValueString (m_ID data)) of
                   (Inl err, w'') \<Rightarrow>
                     (AddError ''Client Error''
                        (''Unable to read updated user, got error: '' @ err) resp, w'')
                 | (Inr user, w'') \<Rightarrow>
                     (let data = data\<lparr>m_UpdatedAt :=
                                   StringValue (Format_RFC3339 L (UpdatedAt user))\<rparr>
                      in (State_Set data resp, w'')))))"

definition UserResource_Delete ::
  "lib \<Rightarrow> Client \<Rightarrow> world \<Rightarrow> UserResourceModel tfdata \<Rightarrow> Response \<Rightarrow> Response \<times> world" where
  "UserResource_Delete L c w state resp =
     (let data = Get_Value state;
          resp = Diagnostics_Append (Get_Diagnostics state) resp
      in if HasError (Diagnostics resp) then (resp, w)
         else
           (case DeleteUser L c w (ValueString (m_ID data)) of
              (Some err, w') \<Rightarrow>
                (AddError ''Client Error'' (''Unable to delete user, got error: '' @ err) resp, w')
            | (None, w') \<Rightarrow> (resp, w')))"

text \<open>\<^verbatim>\<open>ImportState\<close>: \<open>req_ID\<close> is \<^verbatim>\<open>req.ID\<close>, the import identifier.\<close>

definition UserResource_ImportState ::
  "lib \<Rightarrow> Client \<Rightarrow> world \<Rightarrow> string \<Rightarrow> Response \<Rightarrow> Response \<times> world" where
  "UserResource_ImportState L c w req_ID resp =
     (let email = req_ID
      in case GetUser L c w email of
           (Inl err, w') \<Rightarrow>
             (AddError ''Client Error''
                (''Unable to get user by email '' @ email @ '', got error: '' @ err) resp, w')
         | (Inr user, w') \<Rightarrow>
             (let resp = State_SetAttribute (Root ''id'') (ID user) resp;
                  resp = State_SetAttribute (Root ''email'') (Email user) resp
              in (resp, w')))"

section \<open>The provider package: configuration\<close>

record N8nCloudProviderModel =
  p_APIKey :: tfString
  p_InstanceURL :: tfString
  p_Timeout :: tfInt64

record ConfigureResponse =
  cfg_Diagnostics :: "diagnostic list"
  DataSourceData :: "Client option"
  ResourceData :: "Client option"

definition AddAttributeError ::
  "path \<Rightarrow> string \<Rightarrow> string \<Rightarrow> ConfigureResponse \<Rightarrow> ConfigureResponse" where
  "AddAttributeError p summary detail resp =
     (case p of Root name \<Rightarrow>
        resp\<lparr>cfg_Diagnostics :=
               cfg_Diagnostics resp @ [AttributeErrorDiagnostic name summary detail]\<rparr>)"

text \<open>\<open>getenv\<close> is \<^verbatim>\<open>os.Getenv\<close>: the empty string for a variable that is not set.\<close>

definition Configure ::
  "(string \<Rightarrow> string) \<Rightarrow> N8nCloudProviderModel tfdata \<Rightarrow> ConfigureResponse \<Rightarrow> ConfigureResponse" where
  "Configure getenv config resp =
     (let data = Get_Value config;
          resp = resp\<lparr>cfg_Diagnostics := cfg_Diagnostics resp @ Get_Diagnostics config\<rparr>
      in if HasError (cfg_Diagnostics resp) then resp
         else
           (let resp =
                  (if String_IsUnknown (p_APIKey data) then
                     AddAttributeError (Root ''api_key'') ''Unknown n8n Cloud API Key''
                       (''The provider cannot create the n8n Cloud API client as there is an unknown configuration value for the n8n Cloud API key. '' @
                        ''Either target apply the source of the value first, set the value statically in the configuration, or use the N8N_API_KEY environment variable.'')
                       resp
                   else resp);
                resp =
                  (if String_IsUnknown (p_InstanceURL data) then
                     AddAttributeError (Root ''instance_url'') ''Unknown n8n Cloud Instance URL''
                       (''The provider cannot create the n8n Cloud API client as there is an unknown configuration value for the n8n Cloud instance URL. '' @
                        ''Either target apply the source of the value first, set the value statically in the configuration, or use the N8N_INSTANCE_URL environment variable.'')
                       resp
                   else resp)
            in if HasError (cfg_Diagnostics resp) then resp
               else
                 (let apiKey = getenv ''N8N_API_KEY'';
                      instanceURL = getenv ''N8N_INSTANCE_URL'';
                      timeout = (30 :: 64 word);
                      apiKey = (if \<not> String_IsNull (p_APIKey data)
                                then ValueString (p_APIKey data) else apiKey);
                      instanceURL = (if \<not> String_IsNull (p_InstanceURL data)
                                     then ValueString (p_InstanceURL data) else instanceURL);
                      timeout = (if \<not> Int64_IsNull (p_Timeout data)
                                 then ValueInt64 (p_Timeout data) else timeout);
                      resp =
                        (if apiKey = [] then
                           AddAttributeError (Root ''api_key'') ''Missing n8n Cloud API Key''
                             (''The provider cannot create the n8n Cloud API client as there is a missing or empty value for the n8n Cloud API key. '' @
                              ''Set the api_key value in the configuration or use the N8N_API_KEY environment variable. '' @
                              ''If either is already set, ensure the value is not empty.'')
                             resp
                         else resp);
                      resp =
                        (if instanceURL = [] then
                           AddAttributeError (Root ''instance_url'') ''Missing n8n Cloud Instance URL''
                             (''The provider cannot create the n8n Cloud API client as there is a missing or empty value for the n8n Cloud instance URL. '' @
                              ''Set the instance_url value in the configuration or use the N8N_INSTANCE_URL environment variable. '' @
                              ''If either is already set, ensure the value is not empty.'')
                             resp
                         else resp)
                  in if HasError (cfg_Diagnostics resp) then resp
                     else
                       (let clientConfig = \<lparr>BaseURL = instanceURL, APIKey = apiKey,
                                            Timeout = timeout * time_Second\<rparr>
                        in case NewClient clientConfig of
                             Inl err \<Rightarrow>
                               resp\<lparr>cfg_Diagnostics := cfg_Diagnostics resp @
                                      [ErrorDiagnostic ''Unable to create n8n Cloud API Client''
                                         (''An unexpected error occurred when creating the n8n Cloud API client: '' @ err)]\<rparr>
                           | Inr apiClient \<Rightarrow>
                               resp\<lparr>DataSourceData := Some apiClient,
                                     ResourceData := Some apiClient\<rparr>))))"

section \<open>Notions used to state the properties\<close>

text \<open>The request that \<^verbatim>\<open>doRequest\<close> builds and sends.\<close>

definition sent_Request :: "Client \<Rightarrow> string \<Rightarrow> string \<Rightarrow> string option \<Rightarrow> Request" where
  "sent_Request c method path reqBody =
     \<lparr>Method = method, URL = baseURL c @ ''/api/v1'' @ path,
      Header = [(''X-N8N-API-KEY'', apiKey c), (''Content-Type'', ''application/json''),
                (''Accept'', ''application/json''), (''User-Agent'', userAgent)],
      Body = reqBody\<rparr>"

text \<open>What \<^verbatim>\<open>doRequest\<close> returns once the round trip has ended.\<close>

definition roundtrip_result :: "lib \<Rightarrow> RoundTrip \<Rightarrow> string + string" where
  "roundtrip_result L rt =
     (case rt of
        DoError err \<Rightarrow> Inl (''failed to perform request: '' @ err)
      | ReadError err \<Rightarrow> Inl (''failed to read response body: '' @ err)
      | Response StatusCode respBody \<Rightarrow>
          if StatusCode \<ge> 400 then
            (case json_Unmarshal_ErrorResponse L respBody of
               Inl err \<Rightarrow> Inl (''HTTP '' @ show_int StatusCode @ '': '' @ respBody)
             | Inr errResp \<Rightarrow> Inl (''API error: '' @ Code errResp @ '' - '' @ Message errResp))
          else Inr respBody)"

section \<open>Concrete inputs\<close>

definition example_user :: User where
  "example_user =
     \<lparr>ID = ''u-1'', Email = ''a@x.com'', FirstName = Some ''Ada'', LastName = None,
      IsPending = True, CreatedAt = 0, UpdatedAt = 1000000000, Role = ''global:admin'',
      InviteAcceptUrl = ''https://n8n.example/invite/u-1'',
      GlobalRole = Some \<lparr>Name = ''global:admin''\<rparr>\<rparr>"

text \<open>
  A library instance for the concrete inputs: bodies are the tokens \<open>USER\<close> (a user
  envelope), \<open>NOROLE\<close> (the same user without a role) and \<open>E404\<close> (a structured
  error); anything else is not JSON.
\<close>

definition example_lib :: lib where
  "example_lib =
     \<lparr>json_Marshal = (\<lambda>b. Inr ''BODY''),
      json_Unmarshal_ErrorResponse =
        (\<lambda>s. if s = ''E404'' then Inr \<lparr>Code = ''404'', Message = ''Not Found'', Hint = []\<rparr>
             else Inl ''invalid character''),
      json_Unmarshal_UserResponse =
        (\<lambda>s. if s = ''USER'' then Inr \<lparr>Data = example_user\<rparr>
             else if s = ''NOROLE'' then Inr \<lparr>Data = example_user\<lparr>Role := []\<rparr>\<rparr>
             else Inl ''invalid character''),
      http_NewRequestWithContext = (\<lambda>method url. None),
      Format_RFC3339 =
        (\<lambda>t. if t = 0 then ''1970-01-01T00:00:00Z'' else ''1970-01-01T00:00:01Z'')\<rparr>"

definition example_client :: Client where
  "example_client =
     \<lparr>baseURL = ''https://n8n.example'', apiKey = ''key'',
      httpClient = \<lparr>Client_Timeout = defaultTimeout\<rparr>\<rparr>"

text \<open>A remote side that answers by the method of the request; nothing sent yet.\<close>

definition example_world :: "(string \<Rightarrow> RoundTrip) \<Rightarrow> world" where
  "example_world answer = \<lparr>respond = (\<lambda>sent cl req. answer (Method req)), calls = []\<rparr>"

definition example_model :: UserModel where
  "example_model =
     \<lparr>m_ID = StringValue ''u-1'', m_Email = StringValue ''a@x.com'',
      m_Role = StringValue ''global:member'', m_FirstName = StringUnknown,
      m_LastName = StringUnknown, m_IsPending = BoolValue False,
      m_CreatedAt = StringValue ''1969-12-31T00:00:00Z'',
      m_UpdatedAt = StringValue ''1969-12-31T00:00:00Z'',
      m_InviteAcceptURL = StringUnknown\<rparr>"

definition decoded :: "'a \<Rightarrow> 'a tfdata" where
  "decoded v = \<lparr>Get_Diagnostics = [], Get_Value = v\<rparr>"

definition null_Response :: Response where
  "null_Response = \<lparr>Diagnostics = [], State = None\<rparr>"

definition prior_Response :: Response where
  "prior_Response = \<lparr>Diagnostics = [], State = Some example_model\<rparr>"

text \<open>A plan for a new user: the two required attributes, every computed one unknown.\<close>

definition example_plan :: UserModel where
  "example_plan =
     \<lparr>m_ID = StringUnknown, m_Email = StringValue ''a@x.com'',
      m_Role = StringValue ''global:member'', m_FirstName = StringUnknown,
      m_LastName = StringUnknown, m_IsPending = BoolUnknown, m_CreatedAt = StringUnknown,
      m_UpdatedAt = StringUnknown, m_InviteAcceptURL = StringUnknown\<rparr>"

text \<open>Data source configurations: an id or an email or both, the rest null.\<close>

definition lookup_config :: "tfString \<Rightarrow> tfString \<Rightarrow> UserModel tfdata" where
  "lookup_config i e = decoded (null_UserModel\<lparr>m_ID := i, m_Email := e\<rparr>)"

text \<open>The summary line of a diagnostic.\<close>

fun diagnostic_summary :: "diagnostic \<Rightarrow> string" where
  "diagnostic_summary (ErrorDiagnostic summary detail) = summary"
| "diagnostic_summary (AttributeErrorDiagnostic attr summary detail) = summary"
| "diagnostic_summary (WarningDiagnostic summary detail) = summary"

text \<open>
  A process environment with both variables set, one with none set, and provider
  configurations.
\<close>

definition example_getenv :: "string \<Rightarrow> string" where
  "example_getenv name =
     (if name = ''N8N_API_KEY'' then ''env-key''
      else if name = ''N8N_INSTANCE_URL'' then ''https://env.example''
      else [])"

definition provider_config :: "tfString \<Rightarrow> tfString \<Rightarrow> tfInt64 \<Rightarrow> N8nCloudProviderModel tfdata" where
  "provider_config k u t = decoded \<lparr>p_APIKey = k, p_InstanceURL = u, p_Timeout = t\<rparr>"

definition unconfigured :: ConfigureResponse where
  "unconfigured = \<lparr>cfg_Diagnostics = [], DataSourceData = None, ResourceData = None\<rparr>"

lemma HasError_append: "HasError (xs @ ys) = (HasError xs \<or> HasError ys)"
  by (induction xs) auto

lemma doRequest_None:
  "doRequest L c w method path None =
     (case http_NewRequestWithContext L method (baseURL c @ ''/api/v1'' @ path) of
        Some err \<Rightarrow> (Inl (''failed to create request: '' @ err), w)
      | None \<Rightarrow>
          (roundtrip_result L (respond w (calls w) (httpClient c) (sent_Request c method path None)),
           w\<lparr>calls := calls w @ [sent_Request c method path None]\<rparr>))"
proof (cases "http_NewRequestWithContext L method (baseURL c @ ''/api/v1'' @ path)")
  case (Some err)
  then show ?thesis by (simp add: doRequest_def)
next
  case None
  show ?thesis
    unfolding doRequest_def Let_def roundtrip_result_def sent_Request_def
    apply (simp only: None option.case sum.case)
    apply (cases "respond w (calls w) (httpClient c) \<lparr>Method = method, URL = baseURL c @ ''/api/v1'' @ path,
      Header = [(''X-N8N-API-KEY'', apiKey c), (''Content-Type'', ''application/json''),
                (''Accept'', ''application/json''), (''User-Agent'', userAgent)],
      Body = None\<rparr>")
      apply (simp_all split: sum.split)
    done
qed

lemma doRequest_Some:
  "doRequest L c w method path (Some b) =
     (case json_Marshal L b of
        Inl err \<Rightarrow> (Inl (''failed to marshal request body: '' @ err), w)
      | Inr jsonBody \<Rightarrow>
         (case http_NewRequestWithContext L method (baseURL c @ ''/api/v1'' @ path) of
            Some err \<Rightarrow> (Inl (''failed to create request: '' @ err), w)
          | None \<Rightarrow>
             (roundtrip_result L
                (respond w (calls w) (httpClient c) (sent_Request c method path (Some jsonBody))),
              w\<lparr>calls := calls w @ [sent_Request c method path (Some jsonBody)]\<rparr>)))"
proof (cases "json_Marshal L b")
  case (Inl err)
  then show ?thesis by (simp add: doRequest_def)
next
  case (Inr jsonBody)
  show ?thesis
  proof (cases "http_NewRequestWithContext L method (baseURL c @ ''/api/v1'' @ path)")
    case (Some err)
    with Inr show ?thesis by (simp add: doRequest_def)
  next
    case None
    show ?thesis
      unfolding doRequest_def Let_def roundtrip_result_def sent_Request_def
      apply (simp only: Inr None option.case sum.case)
      apply (cases "respond w (calls w) (httpClient c) \<lparr>Method = method, URL = baseURL c @ ''/api/v1'' @ path,
      Header = [(''X-N8N-API-KEY'', apiKey c), (''Content-Type'', ''application/json''),
                (''Accept'', ''application/json''), (''User-Agent'', userAgent)],
      Body = Some jsonBody\<rparr>")
        apply (simp_all split: sum.split)
      done
  qed
qed

lemma GetUser_eq:
  "GetUser L c w s =
     (case http_NewRequestWithContext L ''GET'' (baseURL c @ ''/api/v1'' @ ''/users/'' @ s) of
        Some err \<Rightarrow> (Inl (''failed to create request: '' @ err), w)
      | None \<Rightarrow>
          ((case roundtrip_result L
                   (respond w (calls w) (httpClient c) (sent_Request c ''GET'' (''/users/'' @ s) None)) of
              Inl err \<Rightarrow> Inl err
            | Inr body \<Rightarrow>
                (case json_Unmarshal_UserResponse L body of
                   Inl err \<Rightarrow> Inl (''failed to unmarshal user response: '' @ err)
                 | Inr resp \<Rightarrow> Inr (Data resp))),
           w\<lparr>calls := calls w @ [sent_Request c ''GET'' (''/users/'' @ s) None]\<rparr>))"
  unfolding GetUser_def doRequest_None
  by (simp split: option.split sum.split)

lemma GetUser_Inr_world:
  assumes "GetUser L c w s = (Inr user, w')"
  shows "w' = w\<lparr>calls := calls w @ [sent_Request c ''GET'' (''/users/'' @ s) None]\<rparr>"
proof (cases "http_NewRequestWithContext L ''GET'' (baseURL c @ ''/api/v1'' @ ''/users/'' @ s)")
  case None
  with assms show ?thesis by (simp add: GetUser_eq)
next
  case (Some err)
  with assms show ?thesis by (simp add: GetUser_eq)
qed

lemma UpdateUserRole_None_world:
  assumes "UpdateUserRole L c w s newRole = (None, w')"
  shows "\<exists>jsonBody. json_Marshal L (UpdateUserRoleBody \<lparr>NewRoleName = newRole\<rparr>) = Inr jsonBody \<and>
           w' = w\<lparr>calls := calls w @
                  [sent_Request c ''PATCH'' (''/users/'' @ s @ ''/role'') (Some jsonBody)]\<rparr>"
proof (cases "json_Marshal L (UpdateUserRoleBody \<lparr>NewRoleName = newRole\<rparr>)")
  case (Inl err)
  with assms show ?thesis by (simp add: UpdateUserRole_def doRequest_Some Let_def)
next
  case (Inr jsonBody)
  show ?thesis
  proof (cases "http_NewRequestWithContext L ''PATCH'' (baseURL c @ ''/api/v1'' @ ''/users/'' @ s @ ''/role'')")
    case (Some err)
    with Inr assms show ?thesis by (simp add: UpdateUserRole_def doRequest_Some Let_def)
  next
    case None
    with Inr assms show ?thesis
      by (simp add: UpdateUserRole_def doRequest_Some Let_def split: sum.splits)
  qed
qed

text \<open>
  C10: lookup by email is lookup by id: for every identifier, \<^verbatim>\<open>GetUserByEmail\<close> returns
  what \<^verbatim>\<open>GetUser\<close> returns and leaves the network as \<^verbatim>\<open>GetUser\<close> leaves it, namely
  with one more request sent, a GET of \<^verbatim>\<open>/users/{s}\<close> under \<^verbatim>\<open>{baseURL}/api/v1\<close>
  (none when the request cannot be built).
\<close>

theorem GetUserByEmail_same_as_GetUser:
  "GetUserByEmail L c w s = GetUser L c w s \<and>
   snd (GetUserByEmail L c w s) =
     (case http_NewRequestWithContext L ''GET'' (baseURL c @ ''/api/v1'' @ ''/users/'' @ s) of
        None \<Rightarrow> w\<lparr>calls := calls w @ [sent_Request c ''GET'' (''/users/'' @ s) None]\<rparr>
      | Some err \<Rightarrow> w)"
  unfolding GetUserByEmail_def GetUser_eq
  by (simp split: option.split)

text \<open>
  C6: when a request was sent and a response with a status code and a body came back,
  \<^verbatim>\<open>doRequest\<close> returns: for a status of 400 or more, the error
  \<^verbatim>\<open>API error: {code} - {message}\<close> of the decoded error body, or, when the body does not
  decode, the error \<^verbatim>\<open>HTTP {status}: {body}\<close>; for a status below 400, the body and no
  error.
\<close>

theorem doRequest_status_classes:
  assumes "doRequest L c w method path body = (r, w')"
    and "calls w' = calls w @ [req]"
    and "respond w (calls w) (httpClient c) req = Response StatusCode respBody"
  shows "r = (if StatusCode \<ge> 400 then
               (case json_Unmarshal_ErrorResponse L respBody of
                  Inr errResp \<Rightarrow> Inl (''API error: '' @ Code errResp @ '' - '' @ Message errResp)
                | Inl err \<Rightarrow> Inl (''HTTP '' @ show_int StatusCode @ '': '' @ respBody))
              else Inr respBody)"
proof -
  have tail: "roundtrip_result L (Response StatusCode respBody) =
      (if StatusCode \<ge> 400 then
               (case json_Unmarshal_ErrorResponse L respBody of
                  Inr errResp \<Rightarrow> Inl (''API error: '' @ Code errResp @ '' - '' @ Message errResp)
                | Inl err \<Rightarrow> Inl (''HTTP '' @ show_int StatusCode @ '': '' @ respBody))
              else Inr respBody)"
    by (simp add: roundtrip_result_def split: sum.split)
  show ?thesis
  proof (cases body)
    case None
    show ?thesis
    proof (cases "http_NewRequestWithContext L method (baseURL c @ ''/api/v1'' @ path)")
      case (Some err)
      with None assms(1,2) show ?thesis by (simp add: doRequest_None)
    next
      case nr: None
      from None nr assms(1) have
        "r = roundtrip_result L (respond w (calls w) (httpClient c) (sent_Request c method path None))"
        and "w' = w\<lparr>calls := calls w @ [sent_Request c method path None]\<rparr>"
        by (simp_all add: doRequest_None)
      moreover from this(2) assms(2) have "req = sent_Request c method path None" by simp
      ultimately show ?thesis using assms(3) tail by simp
    qed
  next
    case (Some b)
    show ?thesis
    proof (cases "json_Marshal L b")
      case (Inl err)
      with Some assms(1,2) show ?thesis by (simp add: doRequest_Some)
    next
      case (Inr jsonBody)
      show ?thesis
      proof (cases "http_NewRequestWithContext L method (baseURL c @ ''/api/v1'' @ path)")
        case sm: (Some err)
        with Some Inr assms(1,2) show ?thesis by (simp add: doRequest_Some)
      next
        case nr: None
        from Some Inr nr assms(1) have
          "r = roundtrip_result L
                 (respond w (calls w) (httpClient c) (sent_Request c method path (Some jsonBody)))"
          and "w' = w\<lparr>calls := calls w @ [sent_Request c method path (Some jsonBody)]\<rparr>"
          by (simp_all add: doRequest_Some)
        moreover from this(2) assms(2) have "req = sent_Request c method path (Some jsonBody)"
          by simp
        ultimately show ?thesis using assms(3) tail by simp
      qed
    qed
  qed
qed

theorem doRequest_status_classes_witness:
  "fst (doRequest example_lib example_client (example_world (\<lambda>m. Response 404 ''E404''))
          ''GET'' ''/users/ghost'' None) = Inl ''API error: 404 - Not Found'' \<and>
   fst (doRequest example_lib example_client (example_world (\<lambda>m. Response 500 ''boom''))
          ''GET'' ''/users/ghost'' None) = Inl ''HTTP 500: boom'' \<and>
   fst (doRequest example_lib example_client (example_world (\<lambda>m. Response 200 ''USER''))
          ''GET'' ''/users/ghost'' None) = Inr ''USER'' \<and>
   snd (doRequest example_lib example_client (example_world (\<lambda>m. Response 404 ''E404''))
          ''GET'' ''/users/ghost'' None) =
     (example_world (\<lambda>m. Response 404 ''E404''))
       \<lparr>calls := [sent_Request example_client ''GET'' ''/users/ghost'' None]\<rparr>"
  using doRequest_status_classes
    [of example_lib example_client "example_world (\<lambda>m. Response 404 ''E404'')"
        "''GET''" "''/users/ghost''" None
        "fst (doRequest example_lib example_client (example_world (\<lambda>m. Response 404 ''E404''))
                ''GET'' ''/users/ghost'' None)"
        "snd (doRequest example_lib example_client (example_world (\<lambda>m. Response 404 ''E404''))
                ''GET'' ''/users/ghost'' None)"
        "sent_Request example_client ''GET'' ''/users/ghost'' None" 404 "''E404''"]
    doRequest_status_classes
    [of example_lib example_client "example_world (\<lambda>m. Response 500 ''boom'')"
        "''GET''" "''/users/ghost''" None
        "fst (doRequest example_lib example_client (example_world (\<lambda>m. Response 500 ''boom''))
                ''GET'' ''/users/ghost'' None)"
        "snd (doRequest example_lib example_client (example_world (\<lambda>m. Response 500 ''boom''))
                ''GET'' ''/users/ghost'' None)"
        "sent_Request example_client ''GET'' ''/users/ghost'' None" 500 "''boom''"]
    doRequest_status_classes
    [of example_lib example_client "example_world (\<lambda>m. Response 200 ''USER'')"
        "''GET''" "''/users/ghost''" None
        "fst (doRequest example_lib example_client (example_world (\<lambda>m. Response 200 ''USER''))
                ''GET'' ''/users/ghost'' None)"
        "snd (doRequest example_lib example_client (example_world (\<lambda>m. Response 200 ''USER''))
                ''GET'' ''/users/ghost'' None)"
        "sent_Request example_client ''GET'' ''/users/ghost'' None" 200 "''USER''"]
  by (simp add: doRequest_None example_lib_def example_world_def roundtrip_result_def
        show_int_def show_nat.simps)

text \<open>
  C3: an \<^verbatim>\<open>Update\<close> whose plan decodes and whose two client calls succeed first sends
  the role change (PATCH \<^verbatim>\<open>/users/{id}/role\<close>) and then fetches the user again (GET
  \<^verbatim>\<open>/users/{id}\<close>); the state it stores is the plan with \<open>updated_at\<close> replaced by the
  fetched user's, so id, email, role, first_name, last_name, is_pending, created_at and
  invite_accept_url are the plan's.
\<close>

theorem Update_refreshes_only_updated_at:
  assumes "\<not> HasError (Diagnostics resp @ Get_Diagnostics plan)"
    and "UpdateUserRole L c w (ValueString (m_ID (Get_Value plan)))
           (ValueString (m_Role (Get_Value plan))) = (None, w1)"
    and "GetUser L c w1 (ValueString (m_ID (Get_Value plan))) = (Inr user, w2)"
  shows "UserResource_Update L c w plan resp =
           (resp\<lparr>Diagnostics := Diagnostics resp @ Get_Diagnostics plan,
                  State := Some ((Get_Value plan)
                             \<lparr>m_UpdatedAt := StringValue (Format_RFC3339 L (UpdatedAt user))\<rparr>)\<rparr>,
            w2) \<and>
         map (\<lambda>r. (Method r, URL r)) (drop (length (calls w)) (calls w2)) =
           [(''PATCH'', baseURL c @ ''/api/v1'' @ ''/users/'' @ ValueString (m_ID (Get_Value plan)) @ ''/role''),
            (''GET'', baseURL c @ ''/api/v1'' @ ''/users/'' @ ValueString (m_ID (Get_Value plan)))]"
proof -
  from assms(2) obtain jsonBody where
    w1: "w1 = w\<lparr>calls := calls w @
                  [sent_Request c ''PATCH''
                     (''/users/'' @ ValueString (m_ID (Get_Value plan)) @ ''/role'') (Some jsonBody)]\<rparr>"
    using UpdateUserRole_None_world by blast
  from assms(3) have
    w2: "w2 = w1\<lparr>calls := calls w1 @
                  [sent_Request c ''GET'' (''/users/'' @ ValueString (m_ID (Get_Value plan))) None]\<rparr>"
    by (rule GetUser_Inr_world)
  have "UserResource_Update L c w plan resp =
           (resp\<lparr>Diagnostics := Diagnostics resp @ Get_Diagnostics plan,
                  State := Some ((Get_Value plan)
                             \<lparr>m_UpdatedAt := StringValue (Format_RFC3339 L (UpdatedAt user))\<rparr>)\<rparr>,
            w2)"
    using assms
    by (simp add: UserResource_Update_def Let_def Diagnostics_Append_def State_Set_def)
  moreover have "map (\<lambda>r. (Method r, URL r)) (drop (length (calls w)) (calls w2)) =
           [(''PATCH'', baseURL c @ ''/api/v1'' @ ''/users/'' @ ValueString (m_ID (Get_Value plan)) @ ''/role''),
            (''GET'', baseURL c @ ''/api/v1'' @ ''/users/'' @ ValueString (m_ID (Get_Value plan)))]"
    by (simp add: w1 w2 sent_Request_def)
  ultimately show ?thesis by simp
qed

theorem Update_refreshes_only_updated_at_witness:
  "UserResource_Update example_lib example_client (example_world (\<lambda>m. Response 200 ''USER''))
     (decoded example_model) prior_Response =
     (\<lparr>Diagnostics = [],
       State = Some (example_model\<lparr>m_UpdatedAt := StringValue ''1970-01-01T00:00:01Z''\<rparr>)\<rparr>,
      (example_world (\<lambda>m. Response 200 ''USER''))
        \<lparr>calls := [sent_Request example_client ''PATCH'' ''/users/u-1/role'' (Some ''BODY''),
                   sent_Request example_client ''GET'' ''/users/u-1'' None]\<rparr>)"
  using Update_refreshes_only_updated_at
    [of prior_Response "decoded example_model" example_lib example_client
        "example_world (\<lambda>m. Response 200 ''USER'')"
        "(example_world (\<lambda>m. Response 200 ''USER''))
           \<lparr>calls := [sent_Request example_client ''PATCH'' ''/users/u-1/role'' (Some ''BODY'')]\<rparr>"
        example_user
        "(example_world (\<lambda>m. Response 200 ''USER''))
           \<lparr>calls := [sent_Request example_client ''PATCH'' ''/users/u-1/role'' (Some ''BODY''),
                      sent_Request example_client ''GET'' ''/users/u-1'' None]\<rparr>"]
  by (simp add: UpdateUserRole_def GetUser_eq doRequest_Some Let_def roundtrip_result_def
        example_lib_def example_world_def example_model_def example_user_def decoded_def
        prior_Response_def)

text \<open>
  C4 as stated fails: when the response carries no role (the empty string), \<^verbatim>\<open>Create\<close>
  keeps the role of the plan, so the stored role is not the server's.
\<close>

theorem Create_role_not_overwritten_counterexample:
  "fst (CreateUser example_lib example_client (example_world (\<lambda>m. Response 200 ''NOROLE''))
          \<lparr>req_Email = ''a@x.com'', req_Role = ''global:member'',
           req_FirstName = [], req_LastName = []\<rparr>) = Inr (example_user\<lparr>Role := []\<rparr>) \<and>
   map_option m_Role
     (State (fst (UserResource_Create example_lib example_client
                    (example_world (\<lambda>m. Response 200 ''NOROLE''))
                    (decoded example_plan) null_Response))) =
     Some (StringValue ''global:member'') \<and>
   StringValue ''global:member'' \<noteq> StringValue (Role (example_user\<lparr>Role := []\<rparr>))"
  by (simp add: UserResource_Create_def CreateUser_def doRequest_Some Let_def
        roundtrip_result_def Diagnostics_Append_def State_Set_def
        example_lib_def example_world_def example_plan_def example_user_def decoded_def
        null_Response_def)

text \<open>
  C4, amended: a \<^verbatim>\<open>Create\<close> whose plan decodes and whose \<^verbatim>\<open>CreateUser\<close> call succeeds
  stores a state in which id, is_pending, created_at, updated_at, first_name, last_name
  and invite_accept_url come from the response (first_name, last_name null when absent,
  invite_accept_url null when empty), email is the plan's, and role is the response's
  role when that is not empty and the plan's role otherwise.
\<close>

theorem Create_populates_from_response:
  assumes "\<not> HasError (Diagnostics resp @ Get_Diagnostics plan)"
    and "CreateUser L c w
           \<lparr>req_Email = ValueString (m_Email (Get_Value plan)),
            req_Role = ValueString (m_Role (Get_Value plan)),
            req_FirstName = [], req_LastName = []\<rparr> = (Inr user, w')"
  shows "UserResource_Create L c w plan resp =
           (resp\<lparr>Diagnostics := Diagnostics resp @ Get_Diagnostics plan,
                  State := Some
                    \<lparr>m_ID = StringValue (ID user),
                     m_Email = m_Email (Get_Value plan),
                     m_Role = (if Role user \<noteq> [] then StringValue (Role user)
                               else m_Role (Get_Value plan)),
                     m_FirstName = (case FirstName user of
                                      Some s \<Rightarrow> StringValue s | None \<Rightarrow> StringNull),
                     m_LastName = (case LastName user of
                                     Some s \<Rightarrow> StringValue s | None \<Rightarrow> StringNull),
                     m_IsPending = BoolValue (IsPending user),
                     m_CreatedAt = StringValue (Format_RFC3339 L (CreatedAt user)),
                     m_UpdatedAt = StringValue (Format_RFC3339 L (UpdatedAt user)),
                     m_InviteAcceptURL = (if InviteAcceptUrl user \<noteq> []
                                          then StringValue (InviteAcceptUrl user)
                                          else StringNull)\<rparr>\<rparr>,
            w')"
  using assms
  by (cases "Get_Value plan")
     (simp add: UserResource_Create_def Let_def Diagnostics_Append_def State_Set_def)

theorem Create_populates_from_response_witness:
  "UserResource_Create example_lib example_client (example_world (\<lambda>m. Response 200 ''USER''))
     (decoded example_plan) null_Response =
     (\<lparr>Diagnostics = [],
       State = Some
         \<lparr>m_ID = StringValue ''u-1'', m_Email = StringValue ''a@x.com'',
          m_Role = StringValue ''global:admin'', m_FirstName = StringValue ''Ada'',
          m_LastName = StringNull, m_IsPending = BoolValue True,
          m_CreatedAt = StringValue ''1970-01-01T00:00:00Z'',
          m_UpdatedAt = StringValue ''1970-01-01T00:00:01Z'',
          m_InviteAcceptURL = StringValue ''https://n8n.example/invite/u-1''\<rparr>\<rparr>,
      (example_world (\<lambda>m. Response 200 ''USER''))
        \<lparr>calls := [sent_Request example_client ''POST'' ''/users'' (Some ''BODY'')]\<rparr>)"
  using Create_populates_from_response
    [of null_Response "decoded example_plan" example_lib example_client
        "example_world (\<lambda>m. Response 200 ''USER'')" example_user
        "(example_world (\<lambda>m. Response 200 ''USER''))
           \<lparr>calls := [sent_Request example_client ''POST'' ''/users'' (Some ''BODY'')]\<rparr>"]
  by (simp add: CreateUser_def doRequest_Some roundtrip_result_def
        example_lib_def example_world_def example_plan_def example_user_def decoded_def
        null_Response_def)

text \<open>
  C8: \<^verbatim>\<open>ImportState\<close> looks the import identifier up with one \<^verbatim>\<open>GetUser\<close> call (one GET
  of \<^verbatim>\<open>/users/{identifier}\<close>); when the call succeeds, the state is the incoming state
  (an object of nulls when it is null) with id and email set from the user found, every
  other attribute and the diagnostics being as they were.
\<close>

theorem ImportState_seeds_id_and_email:
  assumes "GetUser L c w req_ID = (Inr user, w')"
  shows "UserResource_ImportState L c w req_ID resp =
           (resp\<lparr>State := Some
                    ((case State resp of None \<Rightarrow> null_UserModel | Some m \<Rightarrow> m)
                       \<lparr>m_ID := StringValue (ID user),
                        m_Email := StringValue (Email user)\<rparr>)\<rparr>,
            w') \<and>
         calls w' = calls w @ [sent_Request c ''GET'' (''/users/'' @ req_ID) None]"
proof -
  from assms have "w' = w\<lparr>calls := calls w @ [sent_Request c ''GET'' (''/users/'' @ req_ID) None]\<rparr>"
    by (rule GetUser_Inr_world)
  then have "calls w' = calls w @ [sent_Request c ''GET'' (''/users/'' @ req_ID) None]"
    by simp
  moreover have "UserResource_ImportState L c w req_ID resp =
           (resp\<lparr>State := Some
                    ((case State resp of None \<Rightarrow> null_UserModel | Some m \<Rightarrow> m)
                       \<lparr>m_ID := StringValue (ID user),
                        m_Email := StringValue (Email user)\<rparr>)\<rparr>,
            w')"
    using assms by (simp add: UserResource_ImportState_def Let_def)
  ultimately show ?thesis by simp
qed

theorem ImportState_seeds_id_and_email_witness:
  "UserResource_ImportState example_lib example_client
     (example_world (\<lambda>m. Response 200 ''USER'')) ''a@x.com'' null_Response =
     (\<lparr>Diagnostics = [],
       State = Some (null_UserModel\<lparr>m_ID := StringValue ''u-1'',
                                    m_Email := StringValue ''a@x.com''\<rparr>)\<rparr>,
      (example_world (\<lambda>m. Response 200 ''USER''))
        \<lparr>calls := [sent_Request example_client ''GET'' ''/users/a@x.com'' None]\<rparr>)"
  using ImportState_seeds_id_and_email
    [of example_lib example_client "example_world (\<lambda>m. Response 200 ''USER'')" "''a@x.com''"
        example_user
        "(example_world (\<lambda>m. Response 200 ''USER''))
           \<lparr>calls := [sent_Request example_client ''GET'' ''/users/a@x.com'' None]\<rparr>"
        null_Response]
  by (simp add: GetUser_eq roundtrip_result_def example_lib_def example_world_def
        example_user_def null_Response_def)

lemma UserDataSource_Read_by_id:
  assumes "\<not> HasError (Diagnostics resp @ Get_Diagnostics config)"
    and "\<not> String_IsNull (m_ID (Get_Value config))"
  shows "UserDataSource_Read L c w config resp =
           (case GetUser L c w (ValueString (m_ID (Get_Value config))) of
              (Inl err, w') \<Rightarrow>
                (resp\<lparr>Diagnostics := Diagnostics resp @ Get_Diagnostics config @
                         [ErrorDiagnostic ''Client Error''
                            (''Unable to read user, got error: '' @ err)]\<rparr>, w')
            | (Inr user, w') \<Rightarrow>
                (resp\<lparr>Diagnostics := Diagnostics resp @ Get_Diagnostics config,
                       State := Some
                         \<lparr>m_ID = StringValue (ID user),
                          m_Email = StringValue (Email user),
                          m_Role = (case GlobalRole user of
                                      Some r \<Rightarrow> StringValue (Name r) | None \<Rightarrow> StringNull),
                          m_FirstName = (case FirstName user of
                                           Some s \<Rightarrow> StringValue s | None \<Rightarrow> StringNull),
                          m_LastName = (case LastName user of
                                          Some s \<Rightarrow> StringValue s | None \<Rightarrow> StringNull),
                          m_IsPending = BoolValue (IsPending user),
                          m_CreatedAt = StringValue (Format_RFC3339 L (CreatedAt user)),
                          m_UpdatedAt = StringValue (Format_RFC3339 L (UpdatedAt user)),
                          m_InviteAcceptURL = (if InviteAcceptUrl user \<noteq> []
                                               then StringValue (InviteAcceptUrl user)
                                               else StringNull)\<rparr>\<rparr>, w'))"
proof (cases "GetUser L c w (ValueString (m_ID (Get_Value config)))")
  case (Pair r w')
  show ?thesis
  proof (cases r)
    case (Inl err)
    with Pair assms show ?thesis
      by (simp add: UserDataSource_Read_def Let_def Diagnostics_Append_def AddError_def)
  next
    case (Inr user)
    with Pair assms show ?thesis
      by (cases "Get_Value config")
         (simp add: UserDataSource_Read_def Let_def Diagnostics_Append_def State_Set_def)
  qed
qed

text \<open>
  C9: when the configuration decodes and gives both id and email, the data source's
  \<^verbatim>\<open>Read\<close> reports no validation error: it looks the user up by the id alone (the
  network ends as \<^verbatim>\<open>GetUser\<close> on the id leaves it), its result does not depend on the
  configured email, the only diagnostic it may add is the client error of a failed
  lookup, and on success the stored id and email are the ones the server returned.
\<close>

theorem Read_with_id_and_email_looks_up_by_id:
  assumes "\<not> HasError (Diagnostics resp @ Get_Diagnostics config)"
    and "\<not> String_IsNull (m_ID (Get_Value config))"
    and "\<not> String_IsNull (m_Email (Get_Value config))"
  shows "snd (UserDataSource_Read L c w config resp) =
           snd (GetUser L c w (ValueString (m_ID (Get_Value config)))) \<and>
         UserDataSource_Read L c w (config\<lparr>Get_Value := (Get_Value config)\<lparr>m_Email := e\<rparr>\<rparr>) resp =
           UserDataSource_Read L c w config resp \<and>
         (case fst (GetUser L c w (ValueString (m_ID (Get_Value config)))) of
            Inl err \<Rightarrow>
              fst (UserDataSource_Read L c w config resp) =
                resp\<lparr>Diagnostics := Diagnostics resp @ Get_Diagnostics config @
                        [ErrorDiagnostic ''Client Error''
                           (''Unable to read user, got error: '' @ err)]\<rparr>
          | Inr user \<Rightarrow>
              Diagnostics (fst (UserDataSource_Read L c w config resp)) =
                Diagnostics resp @ Get_Diagnostics config \<and>
              map_option m_ID (State (fst (UserDataSource_Read L c w config resp))) =
                Some (StringValue (ID user)) \<and>
              map_option m_Email (State (fst (UserDataSource_Read L c w config resp))) =
                Some (StringValue (Email user)))"
proof -
  obtain r w' where g: "GetUser L c w (ValueString (m_ID (Get_Value config))) = (r, w')"
    by (cases "GetUser L c w (ValueString (m_ID (Get_Value config)))")
  have other: "UserDataSource_Read L c w (config\<lparr>Get_Value := (Get_Value config)\<lparr>m_Email := e\<rparr>\<rparr>) resp =
      UserDataSource_Read L c w config resp"
  proof (cases r)
    case (Inl err)
    with g assms(1,2) show ?thesis
      by (simp add: UserDataSource_Read_def Let_def Diagnostics_Append_def AddError_def)
  next
    case (Inr user)
    with g assms(1,2) show ?thesis
      by (cases "Get_Value config")
         (simp add: UserDataSource_Read_def Let_def Diagnostics_Append_def State_Set_def)
  qed
  show ?thesis
  proof (cases r)
    case (Inl err)
    with g other assms(1,2) show ?thesis
      by (simp add: UserDataSource_Read_by_id [of resp config])
  next
    case (Inr user)
    with g other assms(1,2) show ?thesis
      by (simp add: UserDataSource_Read_by_id [of resp config])
  qed
qed

theorem Read_with_id_and_email_looks_up_by_id_witness:
  "UserDataSource_Read example_lib example_client (example_world (\<lambda>m. Response 200 ''USER''))
     (lookup_config (StringValue ''u-1'') (StringValue ''someone.else@x.com'')) null_Response =
     (\<lparr>Diagnostics = [],
       State = Some
         \<lparr>m_ID = StringValue ''u-1'', m_Email = StringValue ''a@x.com'',
          m_Role = StringValue ''global:admin'', m_FirstName = StringValue ''Ada'',
          m_LastName = StringNull, m_IsPending = BoolValue True,
          m_CreatedAt = StringValue ''1970-01-01T00:00:00Z'',
          m_UpdatedAt = StringValue ''1970-01-01T00:00:01Z'',
          m_InviteAcceptURL = StringValue ''https://n8n.example/invite/u-1''\<rparr>\<rparr>,
      (example_world (\<lambda>m. Response 200 ''USER''))
        \<lparr>calls := [sent_Request example_client ''GET'' ''/users/u-1'' None]\<rparr>)"
  using Read_with_id_and_email_looks_up_by_id
    [of null_Response "lookup_config (StringValue ''u-1'') (StringValue ''someone.else@x.com'')"
        example_lib example_client "example_world (\<lambda>m. Response 200 ''USER'')" StringNull]
  by (simp add: UserDataSource_Read_def GetUser_eq roundtrip_result_def Let_def
        Diagnostics_Append_def State_Set_def lookup_config_def null_UserModel_def
        example_lib_def example_world_def example_user_def decoded_def null_Response_def)

text \<open>
  C2 as stated fails: with both id and email supplied (so not exactly one), \<^verbatim>\<open>Read\<close>
  reports nothing and sends a request.
\<close>

theorem Read_both_supplied_counterexample:
  "\<not> String_IsNull (m_ID (Get_Value (lookup_config (StringValue ''u-1'') (StringValue ''a@x.com'')))) \<and>
   \<not> String_IsNull (m_Email (Get_Value (lookup_config (StringValue ''u-1'') (StringValue ''a@x.com'')))) \<and>
   Diagnostics (fst (UserDataSource_Read example_lib example_client
                       (example_world (\<lambda>m. Response 200 ''USER''))
                       (lookup_config (StringValue ''u-1'') (StringValue ''a@x.com''))
                       null_Response)) = [] \<and>
   calls (snd (UserDataSource_Read example_lib example_client
                 (example_world (\<lambda>m. Response 200 ''USER''))
                 (lookup_config (StringValue ''u-1'') (StringValue ''a@x.com''))
                 null_Response)) =
     [sent_Request example_client ''GET'' ''/users/u-1'' None]"
  by (simp add: UserDataSource_Read_def GetUser_eq roundtrip_result_def Let_def
        Diagnostics_Append_def State_Set_def lookup_config_def null_UserModel_def
        example_lib_def example_world_def example_user_def decoded_def null_Response_def)

text \<open>
  C2, amended: when the configuration gives neither id nor email (both null), the data
  source's \<^verbatim>\<open>Read\<close> sends no request and stores no state; when the configuration
  decodes, the one diagnostic it adds is the error \<open>Missing Attribute\<close>.
\<close>

theorem Read_neither_supplied_no_call:
  assumes "String_IsNull (m_ID (Get_Value config))"
    and "String_IsNull (m_Email (Get_Value config))"
  shows "snd (UserDataSource_Read L c w config resp) = w \<and>
         State (fst (UserDataSource_Read L c w config resp)) = State resp \<and>
         (if HasError (Diagnostics resp @ Get_Diagnostics config)
          then Diagnostics (fst (UserDataSource_Read L c w config resp)) =
                 Diagnostics resp @ Get_Diagnostics config
          else Diagnostics (fst (UserDataSource_Read L c w config resp)) =
                 Diagnostics resp @ Get_Diagnostics config @
                 [ErrorDiagnostic ''Missing Attribute''
                    ''Either 'id' or 'email' must be specified''])"
  using assms
  by (simp add: UserDataSource_Read_def Let_def Diagnostics_Append_def AddError_def)

theorem Read_neither_supplied_no_call_witness:
  "UserDataSource_Read example_lib example_client (example_world (\<lambda>m. Response 200 ''USER''))
     (lookup_config StringNull StringNull) null_Response =
     (\<lparr>Diagnostics = [ErrorDiagnostic ''Missing Attribute''
                         ''Either 'id' or 'email' must be specified''],
       State = None\<rparr>,
      example_world (\<lambda>m. Response 200 ''USER''))"
  using Read_neither_supplied_no_call
    [of "lookup_config StringNull StringNull" example_lib example_client
        "example_world (\<lambda>m. Response 200 ''USER'')" null_Response]
  by (simp add: UserDataSource_Read_def Let_def Diagnostics_Append_def AddError_def
        lookup_config_def null_UserModel_def decoded_def null_Response_def)

text \<open>
  C7 as stated fails for the timeout: an explicit timeout of 0 does not win over the
  built-in default.  The client that \<^verbatim>\<open>Configure\<close> hands out then has the default
  timeout of 30 seconds, and \<^verbatim>\<open>Configure\<close> returns what it returns when no timeout is
  configured at all.
\<close>

theorem Configure_zero_timeout_counterexample:
  "Configure example_getenv (provider_config StringNull StringNull (Int64Value 0)) unconfigured =
     \<lparr>cfg_Diagnostics = [],
      DataSourceData = Some \<lparr>baseURL = ''https://env.example'', apiKey = ''env-key'',
                              httpClient = \<lparr>Client_Timeout = 30000000000\<rparr>\<rparr>,
      ResourceData = Some \<lparr>baseURL = ''https://env.example'', apiKey = ''env-key'',
                            httpClient = \<lparr>Client_Timeout = 30000000000\<rparr>\<rparr>\<rparr> \<and>
   Configure example_getenv (provider_config StringNull StringNull (Int64Value 0)) unconfigured =
   Configure example_getenv (provider_config StringNull StringNull Int64Null) unconfigured \<and>
   (30000000000 :: 64 word) \<noteq> 0 * time_Second"
  by (simp add: Configure_def NewClient_def Let_def HasError_append provider_config_def
        decoded_def unconfigured_def example_getenv_def time_Second_def defaultTimeout_def)

text \<open>
  C7, amended: when the provider configuration decodes and neither the key nor the URL is unknown,
  \<^verbatim>\<open>Configure\<close> resolves the API key and the instance URL as the configured value when
  there is one and else the environment variable (\<open>N8N_API_KEY\<close>, \<open>N8N_INSTANCE_URL\<close>),
  and the timeout as the configured value when there is one and else 30 (seconds).  When
  the resolved key or URL is empty, it adds the error diagnostic of each missing value
  and hands out no client; otherwise it adds no diagnostic and hands out, to data
  sources and resources, the client made of the resolved URL, key and timeout, except
  that a resolved timeout of zero nanoseconds (an explicit 0, or a number of seconds
  whose nanoseconds wrap to 0 in 64 bits) becomes the client's default of 30 seconds.
\<close>

theorem Configure_resolves_by_precedence:
  assumes "\<not> HasError (cfg_Diagnostics resp @ Get_Diagnostics config)"
    and "\<not> String_IsUnknown (p_APIKey (Get_Value config))"
    and "\<not> String_IsUnknown (p_InstanceURL (Get_Value config))"
    and "key = (if \<not> String_IsNull (p_APIKey (Get_Value config))
                then ValueString (p_APIKey (Get_Value config)) else getenv ''N8N_API_KEY'')"
    and "url = (if \<not> String_IsNull (p_InstanceURL (Get_Value config))
                then ValueString (p_InstanceURL (Get_Value config))
                else getenv ''N8N_INSTANCE_URL'')"
    and "seconds = (if \<not> Int64_IsNull (p_Timeout (Get_Value config))
                    then ValueInt64 (p_Timeout (Get_Value config)) else 30)"
  shows "if key = [] \<or> url = [] then
           HasError (cfg_Diagnostics (Configure getenv config resp)) \<and>
           map diagnostic_summary
             (drop (length (cfg_Diagnostics resp @ Get_Diagnostics config))
                (cfg_Diagnostics (Configure getenv config resp))) =
             (if key = [] then [''Missing n8n Cloud API Key''] else []) @
             (if url = [] then [''Missing n8n Cloud Instance URL''] else []) \<and>
           DataSourceData (Configure getenv config resp) = DataSourceData resp \<and>
           ResourceData (Configure getenv config resp) = ResourceData resp
         else
           Configure getenv config resp =
             resp\<lparr>cfg_Diagnostics := cfg_Diagnostics resp @ Get_Diagnostics config,
                   DataSourceData := Some
                     \<lparr>baseURL = url, apiKey = key,
                      httpClient = \<lparr>Client_Timeout =
                        (if seconds * time_Second = 0 then defaultTimeout
                         else seconds * time_Second)\<rparr>\<rparr>,
                   ResourceData := Some
                     \<lparr>baseURL = url, apiKey = key,
                      httpClient = \<lparr>Client_Timeout =
                        (if seconds * time_Second = 0 then defaultTimeout
                         else seconds * time_Second)\<rparr>\<rparr>\<rparr>"
proof -
  let ?k = "if \<not> String_IsNull (p_APIKey (Get_Value config))
            then ValueString (p_APIKey (Get_Value config)) else getenv ''N8N_API_KEY''"
  let ?u = "if \<not> String_IsNull (p_InstanceURL (Get_Value config))
            then ValueString (p_InstanceURL (Get_Value config))
            else getenv ''N8N_INSTANCE_URL''"
  show ?thesis
  proof (cases "?k = []")
    case True
    show ?thesis
    proof (cases "?u = []")
      case u: True
      from True u assms(1,2,3) show ?thesis
        unfolding assms(4,5,6)
        by (simp add: Configure_def Let_def AddAttributeError_def HasError_append)
    next
      case u: False
      from True u assms(1,2,3) show ?thesis
        unfolding assms(4,5,6)
        by (simp add: Configure_def Let_def AddAttributeError_def HasError_append)
    qed
  next
    case False
    show ?thesis
    proof (cases "?u = []")
      case u: True
      from False u assms(1,2,3) show ?thesis
        unfolding assms(4,5,6)
        by (simp add: Configure_def Let_def AddAttributeError_def HasError_append)
    next
      case u: False
      from False u assms(1,2,3) show ?thesis
        unfolding assms(4,5,6)
        by (simp add: Configure_def Let_def NewClient_def HasError_append)
    qed
  qed
qed

theorem Configure_resolves_by_precedence_witness:
  "Configure example_getenv
     (provider_config StringNull (StringValue ''https://cfg.example'') Int64Null) unconfigured =
     \<lparr>cfg_Diagnostics = [],
      DataSourceData = Some \<lparr>baseURL = ''https://cfg.example'', apiKey = ''env-key'',
                              httpClient = \<lparr>Client_Timeout = 30000000000\<rparr>\<rparr>,
      ResourceData = Some \<lparr>baseURL = ''https://cfg.example'', apiKey = ''env-key'',
                            httpClient = \<lparr>Client_Timeout = 30000000000\<rparr>\<rparr>\<rparr> \<and>
   Configure example_getenv
     (provider_config (StringValue ''cfg-key'') StringNull (Int64Value 60)) unconfigured =
     \<lparr>cfg_Diagnostics = [],
      DataSourceData = Some \<lparr>baseURL = ''https://env.example'', apiKey = ''cfg-key'',
                              httpClient = \<lparr>Client_Timeout = 60000000000\<rparr>\<rparr>,
      ResourceData = Some \<lparr>baseURL = ''https://env.example'', apiKey = ''cfg-key'',
                            httpClient = \<lparr>Client_Timeout = 60000000000\<rparr>\<rparr>\<rparr> \<and>
   Configure example_getenv
     (provider_config (StringValue []) StringNull (Int64Value 60)) unconfigured =
     \<lparr>cfg_Diagnostics =
        [AttributeErrorDiagnostic ''api_key'' ''Missing n8n Cloud API Key''
           (''The provider cannot create the n8n Cloud API client as there is a missing or empty value for the n8n Cloud API key. '' @
            ''Set the api_key value in the configuration or use the N8N_API_KEY environment variable. '' @
            ''If either is already set, ensure the value is not empty.'')],
      DataSourceData = None, ResourceData = None\<rparr> \<and>
   map diagnostic_summary
     (cfg_Diagnostics (Configure (\<lambda>name. []) (provider_config StringNull StringNull Int64Null)
                         unconfigured)) =
     [''Missing n8n Cloud API Key'', ''Missing n8n Cloud Instance URL''] \<and>
   DataSourceData (Configure (\<lambda>name. []) (provider_config StringNull StringNull Int64Null)
                     unconfigured) = None \<and>
   ResourceData (Configure (\<lambda>name. []) (provider_config StringNull StringNull Int64Null)
                   unconfigured) = None"
proof -
  have a: "Configure example_getenv
     (provider_config StringNull (StringValue ''https://cfg.example'') Int64Null) unconfigured =
     \<lparr>cfg_Diagnostics = [],
      DataSourceData = Some \<lparr>baseURL = ''https://cfg.example'', apiKey = ''env-key'',
                              httpClient = \<lparr>Client_Timeout = 30000000000\<rparr>\<rparr>,
      ResourceData = Some \<lparr>baseURL = ''https://cfg.example'', apiKey = ''env-key'',
                            httpClient = \<lparr>Client_Timeout = 30000000000\<rparr>\<rparr>\<rparr>"
    using Configure_resolves_by_precedence
      [of unconfigured "provider_config StringNull (StringValue ''https://cfg.example'') Int64Null"
          "''env-key''" example_getenv "''https://cfg.example''" 30]
    by (simp add: provider_config_def decoded_def unconfigured_def example_getenv_def
          time_Second_def defaultTimeout_def)
  have b: "Configure example_getenv
     (provider_config (StringValue ''cfg-key'') StringNull (Int64Value 60)) unconfigured =
     \<lparr>cfg_Diagnostics = [],
      DataSourceData = Some \<lparr>baseURL = ''https://env.example'', apiKey = ''cfg-key'',
                              httpClient = \<lparr>Client_Timeout = 60000000000\<rparr>\<rparr>,
      ResourceData = Some \<lparr>baseURL = ''https://env.example'', apiKey = ''cfg-key'',
                            httpClient = \<lparr>Client_Timeout = 60000000000\<rparr>\<rparr>\<rparr>"
    using Configure_resolves_by_precedence
      [of unconfigured "provider_config (StringValue ''cfg-key'') StringNull (Int64Value 60)"
          "''cfg-key''" example_getenv "''https://env.example''" 60]
    by (simp add: provider_config_def decoded_def unconfigured_def example_getenv_def
          time_Second_def defaultTimeout_def)
  have c: "Configure example_getenv
     (provider_config (StringValue []) StringNull (Int64Value 60)) unconfigured =
     \<lparr>cfg_Diagnostics =
        [AttributeErrorDiagnostic ''api_key'' ''Missing n8n Cloud API Key''
           (''The provider cannot create the n8n Cloud API client as there is a missing or empty value for the n8n Cloud API key. '' @
            ''Set the api_key value in the configuration or use the N8N_API_KEY environment variable. '' @
            ''If either is already set, ensure the value is not empty.'')],
      DataSourceData = None, ResourceData = None\<rparr>"
    by (simp add: Configure_def Let_def AddAttributeError_def HasError_append
          provider_config_def decoded_def unconfigured_def example_getenv_def)
  have d: "map diagnostic_summary
     (cfg_Diagnostics (Configure (\<lambda>name. []) (provider_config StringNull StringNull Int64Null)
                         unconfigured)) =
     [''Missing n8n Cloud API Key'', ''Missing n8n Cloud Instance URL''] \<and>
   DataSourceData (Configure (\<lambda>name. []) (provider_config StringNull StringNull Int64Null)
                     unconfigured) = None \<and>
   ResourceData (Configure (\<lambda>name. []) (provider_config StringNull StringNull Int64Null)
                   unconfigured) = None"
    using Configure_resolves_by_precedence
      [of unconfigured "provider_config StringNull StringNull Int64Null"
          "[]" "\<lambda>name. []" "[]" 30]
    by (simp add: provider_config_def decoded_def unconfigured_def)
  from a b c d show ?thesis by blast
qed

lemma Create_client_failure:
  assumes "\<not> HasError (Diagnostics resp @ Get_Diagnostics d)"
    and "fst (CreateUser L c w
                \<lparr>req_Email = ValueString (m_Email (Get_Value d)),
                 req_Role = ValueString (m_Role (Get_Value d)),
                 req_FirstName = [], req_LastName = []\<rparr>) = Inl err"
  shows "fst (UserResource_Create L c w d resp) =
           resp\<lparr>Diagnostics := Diagnostics resp @ Get_Diagnostics d @
                   [ErrorDiagnostic ''Client Error''
                      (''Unable to create user, got error: '' @ err)]\<rparr>"
  using assms
  by (cases "CreateUser L c w
                \<lparr>req_Email = ValueString (m_Email (Get_Value d)),
                 req_Role = ValueString (m_Role (Get_Value d)),
                 req_FirstName = [], req_LastName = []\<rparr>")
     (simp add: UserResource_Create_def Let_def Diagnostics_Append_def AddError_def)

lemma Read_client_failure:
  assumes "\<not> HasError (Diagnostics resp @ Get_Diagnostics d)"
    and "fst (GetUser L c w (ValueString (m_ID (Get_Value d)))) = Inl err"
  shows "fst (UserResource_Read L c w d resp) =
           resp\<lparr>Diagnostics := Diagnostics resp @ Get_Diagnostics d @
                   [ErrorDiagnostic ''Client Error''
                      (''Unable to read user, got error: '' @ err)]\<rparr>"
  using assms
  by (cases "GetUser L c w (ValueString (m_ID (Get_Value d)))")
     (simp add: UserResource_Read_def Let_def Diagnostics_Append_def AddError_def)

lemma Update_role_failure:
  assumes "\<not> HasError (Diagnostics resp @ Get_Diagnostics d)"
    and "fst (UpdateUserRole L c w (ValueString (m_ID (Get_Value d)))
                (ValueString (m_Role (Get_Value d)))) = Some err"
  shows "fst (UserResource_Update L c w d resp) =
           resp\<lparr>Diagnostics := Diagnostics resp @ Get_Diagnostics d @
                   [ErrorDiagnostic ''Client Error''
                      (''Unable to update user role, got error: '' @ err)]\<rparr>"
  using assms
  by (cases "UpdateUserRole L c w (ValueString (m_ID (Get_Value d)))
                (ValueString (m_Role (Get_Value d)))")
     (simp add: UserResource_Update_def Let_def Diagnostics_Append_def AddError_def)

lemma Update_refetch_failure:
  assumes "\<not> HasError (Diagnostics resp @ Get_Diagnostics d)"
    and "fst (UpdateUserRole L c w (ValueString (m_ID (Get_Value d)))
                (ValueString (m_Role (Get_Value d)))) = None"
    and "fst (GetUser L c
                (snd (UpdateUserRole L c w (ValueString (m_ID (Get_Value d)))
                        (ValueString (m_Role (Get_Value d)))))
                (ValueString (m_ID (Get_Value d)))) = Inl err"
  shows "fst (UserResource_Update L c w d resp) =
           resp\<lparr>Diagnostics := Diagnostics resp @ Get_Diagnostics d @
                   [ErrorDiagnostic ''Client Error''
                      (''Unable to read updated user, got error: '' @ err)]\<rparr>"
proof (cases "UpdateUserRole L c w (ValueString (m_ID (Get_Value d)))
                (ValueString (m_Role (Get_Value d)))")
  case (Pair r w1)
  with assms show ?thesis
    by (cases "GetUser L c w1 (ValueString (m_ID (Get_Value d)))")
       (simp add: UserResource_Update_def Let_def Diagnostics_Append_def AddError_def)
qed

lemma Delete_client_failure:
  assumes "\<not> HasError (Diagnostics resp @ Get_Diagnostics d)"
    and "fst (DeleteUser L c w (ValueString (m_ID (Get_Value d)))) = Some err"
  shows "fst (UserResource_Delete L c w d resp) =
           resp\<lparr>Diagnostics := Diagnostics resp @ Get_Diagnostics d @
                   [ErrorDiagnostic ''Client Error''
                      (''Unable to delete user, got error: '' @ err)]\<rparr>"
  using assms
  by (cases "DeleteUser L c w (ValueString (m_ID (Get_Value d)))")
     (simp add: UserResource_Delete_def Let_def Diagnostics_Append_def AddError_def)

lemma DataSource_Read_client_failure:
  assumes "\<not> HasError (Diagnostics resp @ Get_Diagnostics d)"
    and "\<not> (String_IsNull (m_ID (Get_Value d)) \<and> String_IsNull (m_Email (Get_Value d)))"
    and "fst (if \<not> String_IsNull (m_ID (Get_Value d))
              then GetUser L c w (ValueString (m_ID (Get_Value d)))
              else GetUserByEmail L c w (ValueString (m_Email (Get_Value d)))) = Inl err"
  shows "fst (UserDataSource_Read L c w d resp) =
           resp\<lparr>Diagnostics := Diagnostics resp @ Get_Diagnostics d @
                   [ErrorDiagnostic ''Client Error''
                      (''Unable to read user, got error: '' @ err)]\<rparr>"
proof (cases "String_IsNull (m_ID (Get_Value d))")
  case True
  with assms show ?thesis
    by (cases "GetUserByEmail L c w (ValueString (m_Email (Get_Value d)))")
       (simp add: UserDataSource_Read_def Let_def Diagnostics_Append_def AddError_def)
next
  case False
  with assms show ?thesis
    by (cases "GetUser L c w (ValueString (m_ID (Get_Value d)))")
       (simp add: UserDataSource_Read_def Let_def Diagnostics_Append_def AddError_def)
qed

text \<open>
  C5: in \<^verbatim>\<open>Create\<close>, \<^verbatim>\<open>Read\<close>, \<^verbatim>\<open>Update\<close> (at either of its two calls), \<^verbatim>\<open>Delete\<close> and the
  data source's \<^verbatim>\<open>Read\<close>, when the request data decodes and a client call returns an
  error, the method adds one \<open>Client Error\<close> diagnostic carrying that error and returns
  with the state it was handed, unchanged.
\<close>

theorem client_failure_writes_no_state:
  assumes "\<not> HasError (Diagnostics resp @ Get_Diagnostics d)"
  shows
    "(fst (CreateUser L c w
             \<lparr>req_Email = ValueString (m_Email (Get_Value d)),
              req_Role = ValueString (m_Role (Get_Value d)),
              req_FirstName = [], req_LastName = []\<rparr>) = Inl err \<longrightarrow>
        State (fst (UserResource_Create L c w d resp)) = State resp \<and>
        Diagnostics (fst (UserResource_Create L c w d resp)) =
          Diagnostics resp @ Get_Diagnostics d @
          [ErrorDiagnostic ''Client Error'' (''Unable to create user, got error: '' @ err)]) \<and>
     (fst (GetUser L c w (ValueString (m_ID (Get_Value d)))) = Inl err \<longrightarrow>
        State (fst (UserResource_Read L c w d resp)) = State resp \<and>
        Diagnostics (fst (UserResource_Read L c w d resp)) =
          Diagnostics resp @ Get_Diagnostics d @
          [ErrorDiagnostic ''Client Error'' (''Unable to read user, got error: '' @ err)]) \<and>
     (fst (UpdateUserRole L c w (ValueString (m_ID (Get_Value d)))
             (ValueString (m_Role (Get_Value d)))) = Some err \<longrightarrow>
        State (fst (UserResource_Update L c w d resp)) = State resp \<and>
        Diagnostics (fst (UserResource_Update L c w d resp)) =
          Diagnostics resp @ Get_Diagnostics d @
          [ErrorDiagnostic ''Client Error''
             (''Unable to update user role, got error: '' @ err)]) \<and>
     (fst (UpdateUserRole L c w (ValueString (m_ID (Get_Value d)))
             (ValueString (m_Role (Get_Value d)))) = None \<and>
      fst (GetUser L c
             (snd (UpdateUserRole L c w (ValueString (m_ID (Get_Value d)))
                     (ValueString (m_Role (Get_Value d)))))
             (ValueString (m_ID (Get_Value d)))) = Inl err \<longrightarrow>
        State (fst (UserResource_Update L c w d resp)) = State resp \<and>
        Diagnostics (fst (UserResource_Update L c w d resp)) =
          Diagnostics resp @ Get_Diagnostics d @
          [ErrorDiagnostic ''Client Error''
             (''Unable to read updated user, got error: '' @ err)]) \<and>
     (fst (DeleteUser L c w (ValueString (m_ID (Get_Value d)))) = Some err \<longrightarrow>
        State (fst (UserResource_Delete L c w d resp)) = State resp \<and>
        Diagnostics (fst (UserResource_Delete L c w d resp)) =
          Diagnostics resp @ Get_Diagnostics d @
          [ErrorDiagnostic ''Client Error'' (''Unable to delete user, got error: '' @ err)]) \<and>
     (\<not> (String_IsNull (m_ID (Get_Value d)) \<and> String_IsNull (m_Email (Get_Value d))) \<and>
      fst (if \<not> String_IsNull (m_ID (Get_Value d))
           then GetUser L c w (ValueString (m_ID (Get_Value d)))
           else GetUserByEmail L c w (ValueString (m_Email (Get_Value d)))) = Inl err \<longrightarrow>
        State (fst (UserDataSource_Read L c w d resp)) = State resp \<and>
        Diagnostics (fst (UserDataSource_Read L c w d resp)) =
          Diagnostics resp @ Get_Diagnostics d @
          [ErrorDiagnostic ''Client Error'' (''Unable to read user, got error: '' @ err)])"
proof (intro conjI impI)
  assume "fst (CreateUser L c w
             \<lparr>req_Email = ValueString (m_Email (Get_Value d)),
              req_Role = ValueString (m_Role (Get_Value d)),
              req_FirstName = [], req_LastName = []\<rparr>) = Inl err"
  note r = Create_client_failure [OF assms this]
  show "State (fst (UserResource_Create L c w d resp)) = State resp"
    by (simp add: r)
  show "Diagnostics (fst (UserResource_Create L c w d resp)) =
          Diagnostics resp @ Get_Diagnostics d @
          [ErrorDiagnostic ''Client Error'' (''Unable to create user, got error: '' @ err)]"
    by (simp add: r)
next
  assume "fst (GetUser L c w (ValueString (m_ID (Get_Value d)))) = Inl err"
  note r = Read_client_failure [OF assms this]
  show "State (fst (UserResource_Read L c w d resp)) = State resp"
    by (simp add: r)
  show "Diagnostics (fst (UserResource_Read L c w d resp)) =
          Diagnostics resp @ Get_Diagnostics d @
          [ErrorDiagnostic ''Client Error'' (''Unable to read user, got error: '' @ err)]"
    by (simp add: r)
next
  assume "fst (UpdateUserRole L c w (ValueString (m_ID (Get_Value d)))
             (ValueString (m_Role (Get_Value d)))) = Some err"
  note r = Update_role_failure [OF assms this]
  show "State (fst (UserResource_Update L c w d resp)) = State resp"
    by (simp add: r)
  show "Diagnostics (fst (UserResource_Update L c w d resp)) =
          Diagnostics resp @ Get_Diagnostics d @
          [ErrorDiagnostic ''Client Error''
             (''Unable to update user role, got error: '' @ err)]"
    by (simp add: r)
next
  assume "fst (UpdateUserRole L c w (ValueString (m_ID (Get_Value d)))
             (ValueString (m_Role (Get_Value d)))) = None \<and>
      fst (GetUser L c
             (snd (UpdateUserRole L c w (ValueString (m_ID (Get_Value d)))
                     (ValueString (m_Role (Get_Value d)))))
             (ValueString (m_ID (Get_Value d)))) = Inl err"
  then have r: "fst (UserResource_Update L c w d resp) =
           resp\<lparr>Diagnostics := Diagnostics resp @ Get_Diagnostics d @
                   [ErrorDiagnostic ''Client Error''
                      (''Unable to read updated user, got error: '' @ err)]\<rparr>"
    using Update_refetch_failure [OF assms] by blast
  show "State (fst (UserResource_Update L c w d resp)) = State resp"
    by (simp add: r)
  show "Diagnostics (fst (UserResource_Update L c w d resp)) =
          Diagnostics resp @ Get_Diagnostics d @
          [ErrorDiagnostic ''Client Error''
             (''Unable to read updated user, got error: '' @ err)]"
    by (simp add: r)
next
  assume "fst (DeleteUser L c w (ValueString (m_ID (Get_Value d)))) = Some err"
  note r = Delete_client_failure [OF assms this]
  show "State (fst (UserResource_Delete L c w d resp)) = State resp"
    by (simp add: r)
  show "Diagnostics (fst (UserResource_Delete L c w d resp)) =
          Diagnostics resp @ Get_Diagnostics d @
          [ErrorDiagnostic ''Client Error'' (''Unable to delete user, got error: '' @ err)]"
    by (simp add: r)
next
  assume "\<not> (String_IsNull (m_ID (Get_Value d)) \<and> String_IsNull (m_Email (Get_Value d))) \<and>
      fst (if \<not> String_IsNull (m_ID (Get_Value d))
           then GetUser L c w (ValueString (m_ID (Get_Value d)))
           else GetUserByEmail L c w (ValueString (m_Email (Get_Value d)))) = Inl err"
  then have r: "fst (UserDataSource_Read L c w d resp) =
           resp\<lparr>Diagnostics := Diagnostics resp @ Get_Diagnostics d @
                   [ErrorDiagnostic ''Client Error''
                      (''Unable to read user, got error: '' @ err)]\<rparr>"
    using DataSource_Read_client_failure [OF assms] by blast
  show "State (fst (UserDataSource_Read L c w d resp)) = State resp"
    by (simp add: r)
  show "Diagnostics (fst (UserDataSource_Read L c w d resp)) =
          Diagnostics resp @ Get_Diagnostics d @
          [ErrorDiagnostic ''Client Error'' (''Unable to read user, got error: '' @ err)]"
    by (simp add: r)
qed

theorem client_failure_writes_no_state_witness:
  "fst (UserResource_Create example_lib example_client
          (example_world (\<lambda>m. Response 500 ''boom'')) (decoded example_model) prior_Response) =
     prior_Response\<lparr>Diagnostics := [ErrorDiagnostic ''Client Error''
        ''Unable to create user, got error: HTTP 500: boom'']\<rparr> \<and>
   fst (UserResource_Read example_lib example_client
          (example_world (\<lambda>m. Response 500 ''boom'')) (decoded example_model) prior_Response) =
     prior_Response\<lparr>Diagnostics := [ErrorDiagnostic ''Client Error''
        ''Unable to read user, got error: HTTP 500: boom'']\<rparr> \<and>
   fst (UserResource_Update example_lib example_client
          (example_world (\<lambda>m. Response 500 ''boom'')) (decoded example_model) prior_Response) =
     prior_Response\<lparr>Diagnostics := [ErrorDiagnostic ''Client Error''
        ''Unable to update user role, got error: HTTP 500: boom'']\<rparr> \<and>
   fst (UserResource_Update example_lib example_client
          (example_world (\<lambda>m. if m = ''PATCH'' then Response 200 [] else Response 500 ''boom''))
          (decoded example_model) prior_Response) =
     prior_Response\<lparr>Diagnostics := [ErrorDiagnostic ''Client Error''
        ''Unable to read updated user, got error: HTTP 500: boom'']\<rparr> \<and>
   fst (UserResource_Delete example_lib example_client
          (example_world (\<lambda>m. Response 500 ''boom'')) (decoded example_model) prior_Response) =
     prior_Response\<lparr>Diagnostics := [ErrorDiagnostic ''Client Error''
        ''Unable to delete user, got error: HTTP 500: boom'']\<rparr> \<and>
   fst (UserDataSource_Read example_lib example_client
          (example_world (\<lambda>m. Response 500 ''boom'')) (decoded example_model) prior_Response) =
     prior_Response\<lparr>Diagnostics := [ErrorDiagnostic ''Client Error''
        ''Unable to read user, got error: HTTP 500: boom'']\<rparr>"
  using client_failure_writes_no_state
    [of prior_Response "decoded example_model" example_lib example_client
        "example_world (\<lambda>m. Response 500 ''boom'')" "''HTTP 500: boom''"]
    client_failure_writes_no_state
    [of prior_Response "decoded example_model" example_lib example_client
        "example_world (\<lambda>m. if m = ''PATCH'' then Response 200 [] else Response 500 ''boom'')"
        "''HTTP 500: boom''"]
  by (simp add: UserResource_Create_def UserResource_Read_def UserResource_Update_def
        UserResource_Delete_def UserDataSource_Read_def CreateUser_def GetUser_eq
        GetUserByEmail_def UpdateUserRole_def DeleteUser_def doRequest_Some doRequest_None
        roundtrip_result_def Let_def Diagnostics_Append_def AddError_def
        show_int_def show_nat.simps sent_Request_def
        example_lib_def example_world_def example_model_def decoded_def prior_Response_def)

lemma Read_by_email_same_as_by_id:
  "UserDataSource_Read L c w (lookup_config StringNull (StringValue s)) resp =
   UserDataSource_Read L c w (lookup_config (StringValue s) StringNull) resp"
proof (cases "GetUser L c w s")
  case (Pair r w')
  then show ?thesis
    by (cases r)
       (simp_all add: UserDataSource_Read_def GetUserByEmail_def Let_def lookup_config_def
          decoded_def null_UserModel_def Diagnostics_Append_def AddError_def State_Set_def)
qed

text \<open>
  C1 does not hold of the code.  A data source looks up \<open>non-existent-id\<close> by id, or
  \<open>non-existent@example.com\<close> by email, on a server that answers 404 with a structured
  error: the one diagnostic is the client error wrapped around the transport's text,
  neither identifier occurs in it, and the lookup by email of an identifier reports
  what the lookup by id of the same identifier reports.
\<close>

theorem Read_not_found_diagnostic:
  "fst (UserDataSource_Read example_lib example_client
          (example_world (\<lambda>m. Response 404 ''E404''))
          (lookup_config (StringValue ''non-existent-id'') StringNull) null_Response) =
     \<lparr>Diagnostics = [ErrorDiagnostic ''Client Error''
        ''Unable to read user, got error: API error: 404 - Not Found''], State = None\<rparr> \<and>
   fst (UserDataSource_Read example_lib example_client
          (example_world (\<lambda>m. Response 404 ''E404''))
          (lookup_config StringNull (StringValue ''non-existent@example.com'')) null_Response) =
     \<lparr>Diagnostics = [ErrorDiagnostic ''Client Error''
        ''Unable to read user, got error: API error: 404 - Not Found''], State = None\<rparr> \<and>
   \<not> sublist ''non-existent-id'' ''Unable to read user, got error: API error: 404 - Not Found'' \<and>
   \<not> sublist ''non-existent@example.com''
        ''Unable to read user, got error: API error: 404 - Not Found'' \<and>
   UserDataSource_Read example_lib example_client (example_world (\<lambda>m. Response 404 ''E404''))
     (lookup_config StringNull (StringValue ''non-existent-id'')) null_Response =
   UserDataSource_Read example_lib example_client (example_world (\<lambda>m. Response 404 ''E404''))
     (lookup_config (StringValue ''non-existent-id'') StringNull) null_Response"
proof -
  have a: "fst (UserDataSource_Read example_lib example_client
          (example_world (\<lambda>m. Response 404 ''E404''))
          (lookup_config (StringValue ''non-existent-id'') StringNull) null_Response) =
     \<lparr>Diagnostics = [ErrorDiagnostic ''Client Error''
        ''Unable to read user, got error: API error: 404 - Not Found''], State = None\<rparr>"
    by (simp add: UserDataSource_Read_def GetUser_eq roundtrip_result_def Let_def
          Diagnostics_Append_def AddError_def lookup_config_def null_UserModel_def
          example_lib_def example_world_def decoded_def null_Response_def)
  have b: "fst (UserDataSource_Read example_lib example_client
          (example_world (\<lambda>m. Response 404 ''E404''))
          (lookup_config StringNull (StringValue ''non-existent@example.com'')) null_Response) =
     \<lparr>Diagnostics = [ErrorDiagnostic ''Client Error''
        ''Unable to read user, got error: API error: 404 - Not Found''], State = None\<rparr>"
    by (simp add: UserDataSource_Read_def GetUserByEmail_def GetUser_eq roundtrip_result_def
          Let_def Diagnostics_Append_def AddError_def lookup_config_def null_UserModel_def
          example_lib_def example_world_def decoded_def null_Response_def)
  have c: "\<not> sublist ''non-existent-id''
              ''Unable to read user, got error: API error: 404 - Not Found''"
    by code_simp
  have d: "\<not> sublist ''non-existent@example.com''
              ''Unable to read user, got error: API error: 404 - Not Found''"
    by code_simp
  from a b c d Read_by_email_same_as_by_id show ?thesis by blast
qed

end
